theory Spec2Isabelle
  imports Complex_Main "HOL-Library.Char_ord" "HOL-Library.List_Lexorder"
begin

chapter \<open>The MCP protocol core: registry, negotiator, monitor, server\<close>

text \<open>
  A shallow embedding of \<^verbatim>\<open>backend/app/mcp\<close>: the protocol version registry
  (\<^verbatim>\<open>adapters/base.py\<close>), the version negotiator (\<^verbatim>\<open>negotiation.py\<close>), the
  monitor (\<^verbatim>\<open>monitoring.py\<close>) and the connection handling of the server
  (\<^verbatim>\<open>server.py\<close>). Python objects that are mutated in place are records that are
  passed in and returned; an exception is the \<open>Inl\<close> side of a sum; a \<^verbatim>\<open>dict\<close> is an
  association list in insertion order (a Python \<^verbatim>\<open>dict\<close> iterates in insertion
  order, and assigning to a key that is present keeps the key's place).
\<close>

section \<open>Python values and exceptions\<close>

text \<open>
  The values a decoded JSON frame or a reply can hold. \<open>PObj\<close> is a Python object
  that \<^verbatim>\<open>json.dumps\<close> cannot encode (a \<^verbatim>\<open>datetime\<close>, say); the string is
  its type name. A JSON number with a fraction is \<open>PFloat\<close> of its (finite) value.
\<close>

datatype pyval =
    PNone
  | PBool bool
  | PInt int
  | PFloat rat
  | PStr string
  | PList "pyval list"
  | PDict "(string \<times> pyval) list"
  | PObj string

text \<open>The exceptions the modelled code raises or lets through, each with \<^verbatim>\<open>str(e)\<close>.\<close>

datatype py_error =
    ValueError string
  | TypeError string
  | RuntimeError string
  | AttributeError string
  | IndexError string
  | OverflowError string
  | WebSocketDisconnect

fun str_of :: "py_error \<Rightarrow> string" where
  "str_of (ValueError m) = m"
| "str_of (TypeError m) = m"
| "str_of (RuntimeError m) = m"
| "str_of (AttributeError m) = m"
| "str_of (IndexError m) = m"
| "str_of (OverflowError m) = m"
| "str_of WebSocketDisconnect = []"

text \<open>\<^verbatim>\<open>d[k] = v\<close> on a \<^verbatim>\<open>dict\<close>: overwrite in place, or append a new key.\<close>

fun dict_set :: "'k \<Rightarrow> 'v \<Rightarrow> ('k \<times> 'v) list \<Rightarrow> ('k \<times> 'v) list" where
  "dict_set k v [] = [(k, v)]"
| "dict_set k v (p # ps) = (if fst p = k then (k, v) # ps else p # dict_set k v ps)"

text \<open>\<^verbatim>\<open>d.get(k)\<close> is \<open>map_of d k\<close>; \<^verbatim>\<open>list(d.keys())\<close> is \<open>map fst d\<close>.\<close>

definition dict_keys :: "('k \<times> 'v) list \<Rightarrow> 'k list" where
  "dict_keys d = map fst d"

section \<open>Protocol adapters and the version registry (adapters/base.py)\<close>

text \<open>
  The result of \<^verbatim>\<open>adapter.handle_tool_call\<close>: a result dictionary, or an exception.
\<close>

type_synonym tool_outcome = "py_error + pyval"

text \<open>
  A \<^verbatim>\<open>ProtocolAdapter\<close>: what \<^verbatim>\<open>get_supported_version()\<close> and
  \<^verbatim>\<open>get_supported_tools()\<close> return, and its \<^verbatim>\<open>handle_tool_call\<close>.
\<close>

record adapter =
  supported_version :: string
  supported_tools :: "string list"
  handle_tool_call :: "string \<Rightarrow> pyval \<Rightarrow> tool_outcome"

text \<open>
  \<^verbatim>\<open>ProtocolVersionRegistry\<close>: \<^verbatim>\<open>_adapters\<close> and \<^verbatim>\<open>_compatibility_matrix\<close>.
\<close>

record registry =
  adapters :: "(string \<times> adapter) list"
  compatibility_matrix :: "(string \<times> (string \<times> bool) list) list"

definition empty_registry :: registry where
  "empty_registry = \<lparr>adapters = [], compatibility_matrix = []\<rparr>"

text \<open>
  \<^verbatim>\<open>
  def register_adapter(self, adapter):
      version = adapter.get_supported_version()
      self._adapters[version] = adapter
  \<close>
  There is no check and no raise: the function has no error result.
\<close>

definition register_adapter :: "registry \<Rightarrow> adapter \<Rightarrow> registry" where
  "register_adapter r a = r\<lparr>adapters := dict_set (supported_version a) a (adapters r)\<rparr>"

definition get_adapter :: "registry \<Rightarrow> string \<Rightarrow> adapter option" where
  "get_adapter r v = map_of (adapters r) v"

definition get_supported_versions :: "registry \<Rightarrow> string list" where
  "get_supported_versions r = dict_keys (adapters r)"

text \<open>
  \<^verbatim>\<open>
  def set_compatibility(self, version1, version2, compatible):
      if version1 not in self._compatibility_matrix:
          self._compatibility_matrix[version1] = {}
      self._compatibility_matrix[version1][version2] = compatible
  \<close>
\<close>

definition matrix_set ::
  "string \<Rightarrow> string \<Rightarrow> bool \<Rightarrow> (string \<times> (string \<times> bool) list) list
    \<Rightarrow> (string \<times> (string \<times> bool) list) list" where
  "matrix_set v1 v2 c m =
     (let m1 = (if map_of m v1 = None then dict_set v1 [] m else m);
          row = (case map_of m1 v1 of None \<Rightarrow> [] | Some rw \<Rightarrow> rw)
      in dict_set v1 (dict_set v2 c row) m1)"

definition set_compatibility :: "registry \<Rightarrow> string \<Rightarrow> string \<Rightarrow> bool \<Rightarrow> registry" where
  "set_compatibility r v1 v2 c =
     r\<lparr>compatibility_matrix := matrix_set v1 v2 c (compatibility_matrix r)\<rparr>"

text \<open>\<^verbatim>\<open>matrix.get(version1, {}).get(version2, False)\<close>\<close>

definition matrix_get :: "(string \<times> (string \<times> bool) list) list \<Rightarrow> string \<Rightarrow> string \<Rightarrow> bool" where
  "matrix_get m v1 v2 =
     (case map_of m v1 of
        None \<Rightarrow> False
      | Some row \<Rightarrow> (case map_of row v2 of None \<Rightarrow> False | Some c \<Rightarrow> c))"

definition are_compatible :: "registry \<Rightarrow> string \<Rightarrow> string \<Rightarrow> bool" where
  "are_compatible r v1 v2 = matrix_get (compatibility_matrix r) v1 v2"

text \<open>
  \<^verbatim>\<open>
  def find_best_version(self, client_versions):
      for version in client_versions:
          if version in self._adapters:
              return version
      for client_version in client_versions:
          for server_version in self._adapters:
              if self.are_compatible(server_version, client_version):
                  return server_version
      return None
  \<close>
  One function per loop.
\<close>

fun first_registered :: "registry \<Rightarrow> string list \<Rightarrow> string option" where
  "first_registered r [] = None"
| "first_registered r (v # vs) =
     (if map_of (adapters r) v \<noteq> None then Some v else first_registered r vs)"

fun first_server_for :: "registry \<Rightarrow> string \<Rightarrow> string list \<Rightarrow> string option" where
  "first_server_for r c [] = None"
| "first_server_for r c (s # ss) =
     (if are_compatible r s c then Some s else first_server_for r c ss)"

fun first_compatible :: "registry \<Rightarrow> string list \<Rightarrow> string option" where
  "first_compatible r [] = None"
| "first_compatible r (c # cs) =
     (case first_server_for r c (dict_keys (adapters r)) of
        Some s \<Rightarrow> Some s
      | None \<Rightarrow> first_compatible r cs)"

definition find_best_version :: "registry \<Rightarrow> string list \<Rightarrow> string option" where
  "find_best_version r client_versions =
     (case first_registered r client_versions of
        Some v \<Rightarrow> Some v
      | None \<Rightarrow> first_compatible r client_versions)"

text \<open>A run of the registry's two mutators, from a given registry.\<close>

datatype registry_op = Register adapter | SetCompatibility string string bool

fun apply_registry_op :: "registry \<Rightarrow> registry_op \<Rightarrow> registry" where
  "apply_registry_op r (Register a) = register_adapter r a"
| "apply_registry_op r (SetCompatibility v1 v2 c) = set_compatibility r v1 v2 c"

definition run_registry :: "registry \<Rightarrow> registry_op list \<Rightarrow> registry" where
  "run_registry r ops = foldl apply_registry_op r ops"

text \<open>
  What the last \<^verbatim>\<open>set_compatibility(v1, v2, _)\<close> of a run recorded, if there is one.
\<close>

fun last_edge :: "string \<Rightarrow> string \<Rightarrow> registry_op list \<Rightarrow> bool option" where
  "last_edge v1 v2 [] = None"
| "last_edge v1 v2 (Register a # ops) = last_edge v1 v2 ops"
| "last_edge v1 v2 (SetCompatibility w1 w2 c # ops) =
     (case last_edge v1 v2 ops of
        Some d \<Rightarrow> Some d
      | None \<Rightarrow> (if w1 = v1 \<and> w2 = v2 then Some c else None))"

text \<open>Two adapters of one version, told apart by their tools, for concrete runs.\<close>

definition no_tool_call :: "string \<Rightarrow> pyval \<Rightarrow> tool_outcome" where
  "no_tool_call t p = Inr (PDict [])"

definition adapter_v10 :: adapter where
  "adapter_v10 = \<lparr>supported_version = ''1.0'', supported_tools = [''rag_search''],
     handle_tool_call = no_tool_call\<rparr>"

definition adapter_v10_other :: adapter where
  "adapter_v10_other = \<lparr>supported_version = ''1.0'', supported_tools = [''rag_summarize''],
     handle_tool_call = no_tool_call\<rparr>"

definition adapter_v11 :: adapter where
  "adapter_v11 = \<lparr>supported_version = ''1.1'', supported_tools = [''rag_search''],
     handle_tool_call = no_tool_call\<rparr>"

text \<open>
  The registry of the end-to-end scenarios: adapters 1.0 and 1.1, registered in this
  order, and the edges (1.0,1.0), (1.0,0.9), (1.1,1.1), (1.1,1.0).
\<close>

definition scenario_registry :: registry where
  "scenario_registry =
     run_registry empty_registry
       [Register adapter_v10, Register adapter_v11,
        SetCompatibility ''1.0'' ''1.0'' True, SetCompatibility ''1.0'' ''0.9'' True,
        SetCompatibility ''1.1'' ''1.1'' True, SetCompatibility ''1.1'' ''1.0'' True]"

section \<open>The version negotiator (negotiation.py)\<close>

subsection \<open>Version sort keys\<close>

text \<open>\<^verbatim>\<open>s.split(sep)\<close> for a one-character separator: \<^verbatim>\<open>"".split(".") == [""]\<close>.\<close>

fun split_on :: "char \<Rightarrow> string \<Rightarrow> string list" where
  "split_on sep [] = [[]]"
| "split_on sep (c # cs) =
     (if c = sep then [] # split_on sep cs
      else (case split_on sep cs of [] \<Rightarrow> [[c]] | p # ps \<Rightarrow> (c # p) # ps))"

text \<open>
  \<^verbatim>\<open>int(s)\<close> on an ASCII string: surrounding whitespace (tab, line feed, vertical tab,
  form feed, carriage return, space) is dropped, one sign may lead, and the digits may
  be grouped by single underscores. \<open>None\<close> is \<^verbatim>\<open>ValueError\<close>. Digits outside
  ASCII and the interpreter's limit on the number of digits are not modelled; no
  property below depends on which strings parse.
\<close>

definition is_space :: "char \<Rightarrow> bool" where
  "is_space c = (c \<in> set [CHR 0x09, CHR 0x0A, CHR 0x0B, CHR 0x0C, CHR 0x0D, CHR 0x20])"

definition is_digit :: "char \<Rightarrow> bool" where
  "is_digit c = (c \<in> set ''0123456789'')"

definition py_strip :: "string \<Rightarrow> string" where
  "py_strip s = rev (dropWhile is_space (rev (dropWhile is_space s)))"

definition digits_value :: "string \<Rightarrow> nat" where
  "digits_value ds = foldl (\<lambda>n c. 10 * n + (of_char c - 48)) 0 ds"

definition py_int :: "string \<Rightarrow> int option" where
  "py_int s =
     (let t = py_strip s;
          negative = (case t of [] \<Rightarrow> False | c # _ \<Rightarrow> c = CHR ''-'');
          body = (case t of [] \<Rightarrow> [] | c # r \<Rightarrow> if c = CHR ''-'' \<or> c = CHR ''+'' then r else t);
          groups = split_on CHR ''_'' body
      in if list_all (\<lambda>g. g \<noteq> [] \<and> list_all is_digit g) groups
         then Some ((if negative then - 1 else 1) * int (digits_value (concat groups)))
         else None)"

text \<open>
  \<^verbatim>\<open>
  def _version_sort_key(self, version):
      try:
          parts = version.split(".")
          return tuple(int(part) for part in parts)
      except ValueError:
          return (0, version)
  \<close>
  The key is a tuple of integers, or the pair of the integer 0 and the string itself.
\<close>

datatype key_part = KInt int | KStr string

type_synonym version_key = "key_part list"

definition version_sort_key :: "string \<Rightarrow> version_key" where
  "version_sort_key v =
     (let ns = map py_int (split_on CHR ''.'' v)
      in if list_all (\<lambda>n. n \<noteq> None) ns then map (\<lambda>n. KInt (the n)) ns
         else [KInt 0, KStr v])"

text \<open>
  Python's tuple comparison: the first position where the two tuples differ decides,
  by comparing the two items there; when one tuple is a prefix of the other, the
  lengths decide. Comparing an \<^verbatim>\<open>int\<close> with a \<^verbatim>\<open>str\<close> raises \<^verbatim>\<open>TypeError\<close>.
  Strings compare by code points, which for \<open>string\<close> is the order of
  \<open>HOL-Library.Char_ord\<close> and \<open>HOL-Library.List_Lexorder\<close>.
\<close>

fun part_lt :: "key_part \<Rightarrow> key_part \<Rightarrow> py_error + bool" where
  "part_lt (KInt a) (KInt b) = Inr (a < b)"
| "part_lt (KStr a) (KStr b) = Inr (a < b)"
| "part_lt (KInt a) (KStr b) =
     Inl (TypeError ''not supported between instances of int and str'')"
| "part_lt (KStr a) (KInt b) =
     Inl (TypeError ''not supported between instances of str and int'')"

fun tuple_lt :: "version_key \<Rightarrow> version_key \<Rightarrow> py_error + bool" where
  "tuple_lt [] [] = Inr False"
| "tuple_lt [] (y # ys) = Inr True"
| "tuple_lt (x # xs) [] = Inr False"
| "tuple_lt (x # xs) (y # ys) = (if x = y then tuple_lt xs ys else part_lt x y)"

text \<open>\<^verbatim>\<open>a >= b\<close> on tuples: \<^verbatim>\<open>x >= y\<close> on the deciding items.\<close>

fun part_ge :: "key_part \<Rightarrow> key_part \<Rightarrow> py_error + bool" where
  "part_ge (KInt a) (KInt b) = Inr (a \<ge> b)"
| "part_ge (KStr a) (KStr b) = Inr (a \<ge> b)"
| "part_ge (KInt a) (KStr b) =
     Inl (TypeError ''not supported between instances of int and str'')"
| "part_ge (KStr a) (KInt b) =
     Inl (TypeError ''not supported between instances of str and int'')"

fun tuple_ge :: "version_key \<Rightarrow> version_key \<Rightarrow> py_error + bool" where
  "tuple_ge [] [] = Inr True"
| "tuple_ge [] (y # ys) = Inr False"
| "tuple_ge (x # xs) [] = Inr True"
| "tuple_ge (x # xs) (y # ys) = (if x = y then tuple_ge xs ys else part_ge x y)"

subsection \<open>Sorting by key\<close>

text \<open>
  \<^verbatim>\<open>sorted(versions, key=self._version_sort_key, reverse=...)\<close> compares keys with
  \<^verbatim>\<open><\<close>, and a comparison that raises ends the sort with that \<^verbatim>\<open>TypeError\<close>. Two
  keys whose comparison raises are \<open>(0, n, ...)\<close> and \<open>(0, s)\<close>; no third key lies
  between them by comparisons that succeed, so a comparison sort cannot place them
  without comparing them with each other. The model therefore raises exactly when the
  list holds two keys whose comparison raises, and otherwise returns the stable sort:
  equal keys keep the order of the input, also under \<^verbatim>\<open>reverse=True\<close>.
\<close>

fun first_error :: "version_key \<Rightarrow> version_key list \<Rightarrow> py_error option" where
  "first_error k [] = None"
| "first_error k (j # js) =
     (case tuple_lt k j of Inl e \<Rightarrow> Some e | Inr _ \<Rightarrow> first_error k js)"

fun comparison_error :: "version_key list \<Rightarrow> py_error option" where
  "comparison_error [] = None"
| "comparison_error (k # ks) =
     (case first_error k ks of Some e \<Rightarrow> Some e | None \<Rightarrow> comparison_error ks)"

definition key_less :: "string \<Rightarrow> string \<Rightarrow> bool" where
  "key_less a b = (tuple_lt (version_sort_key a) (version_sort_key b) = Inr True)"

fun insert_ascending :: "string \<Rightarrow> string list \<Rightarrow> string list" where
  "insert_ascending x [] = [x]"
| "insert_ascending x (y # ys) =
     (if key_less y x then y # insert_ascending x ys else x # y # ys)"

fun insert_descending :: "string \<Rightarrow> string list \<Rightarrow> string list" where
  "insert_descending x [] = [x]"
| "insert_descending x (y # ys) =
     (if key_less x y then y # insert_descending x ys else x # y # ys)"

definition sorted_by_key :: "bool \<Rightarrow> string list \<Rightarrow> py_error + string list" where
  "sorted_by_key reverse vs =
     (case comparison_error (map version_sort_key vs) of
        Some e \<Rightarrow> Inl e
      | None \<Rightarrow> Inr (foldr (if reverse then insert_descending else insert_ascending) vs []))"

text \<open>\<^verbatim>\<open>xs[0]\<close>\<close>

definition first_item :: "'a list \<Rightarrow> py_error + 'a" where
  "first_item xs = (case xs of [] \<Rightarrow> Inl (IndexError ''list index out of range'') | x # _ \<Rightarrow> Inr x)"

text \<open>
  \<^verbatim>\<open>
  def _select_latest_version(self, versions):
      return sorted(versions, key=self._version_sort_key, reverse=True)[0]
  \<close>
\<close>

definition select_latest_version :: "string list \<Rightarrow> py_error + string" where
  "select_latest_version versions =
     (case sorted_by_key True versions of Inl e \<Rightarrow> Inl e | Inr vs \<Rightarrow> first_item vs)"

text \<open>
  \<^verbatim>\<open>
  def _get_fallback_version(self, server_versions):
      if not server_versions:
          return None
      return sorted(server_versions, key=self._version_sort_key)[0]
  \<close>
\<close>

definition get_fallback_version :: "string list \<Rightarrow> py_error + string option" where
  "get_fallback_version server_versions =
     (if server_versions = [] then Inr None
      else (case sorted_by_key False server_versions of
              Inl e \<Rightarrow> Inl e
            | Inr vs \<Rightarrow> (case first_item vs of Inl e \<Rightarrow> Inl e | Inr v \<Rightarrow> Inr (Some v))))"

subsection \<open>Client capabilities\<close>

text \<open>
  The capability document of a client \<^verbatim>\<open>hello\<close>, with the fields the negotiator
  reads. A field is \<open>None\<close> when the key is absent. Version fields hold strings and
  lists of strings, feature fields lists of strings (the keys, when
  \<^verbatim>\<open>"capabilities"\<close> is a dictionary).
\<close>

record client_capabilities =
  cap_protocolVersion :: "string option"
  cap_supportedVersions :: "string list option"
  cap_versions :: "string list option"
  cap_version :: "string option"
  cap_features :: "string list option"
  cap_tools :: "string list option"
  cap_capabilities :: "string list option"

definition no_capabilities :: client_capabilities where
  "no_capabilities =
     \<lparr>cap_protocolVersion = None, cap_supportedVersions = None, cap_versions = None,
      cap_version = None, cap_features = None, cap_tools = None, cap_capabilities = None\<rparr>"

text \<open>
  \<^verbatim>\<open>
  def _extract_client_versions(self, capabilities):
      if "protocolVersion" in capabilities:
          return [capabilities["protocolVersion"]]
      if "supportedVersions" in capabilities:
          return capabilities["supportedVersions"]
      if "versions" in capabilities:
          return capabilities["versions"]
      if "version" in capabilities:
          return [capabilities["version"]]
      return ["1.0"]
  \<close>
\<close>

definition extract_client_versions :: "client_capabilities \<Rightarrow> string list" where
  "extract_client_versions caps =
     (case cap_protocolVersion caps of
        Some v \<Rightarrow> [v]
      | None \<Rightarrow>
         (case cap_supportedVersions caps of
            Some vs \<Rightarrow> vs
          | None \<Rightarrow>
             (case cap_versions caps of
                Some vs \<Rightarrow> vs
              | None \<Rightarrow> (case cap_version caps of Some v \<Rightarrow> [v] | None \<Rightarrow> [''1.0'']))))"

text \<open>The set of features, as a list: \<^verbatim>\<open>features\<close>, \<^verbatim>\<open>tools\<close>, \<^verbatim>\<open>capabilities\<close>.\<close>

definition extract_client_features :: "client_capabilities \<Rightarrow> string list" where
  "extract_client_features caps =
     (case cap_features caps of None \<Rightarrow> [] | Some fs \<Rightarrow> fs) @
     (case cap_tools caps of None \<Rightarrow> [] | Some ts \<Rightarrow> ts) @
     (case cap_capabilities caps of None \<Rightarrow> [] | Some cs \<Rightarrow> cs)"

subsection \<open>The negotiator\<close>

text \<open>
  \<^verbatim>\<open>MCPProtocolNegotiator\<close>: the registry it was built on and its own
  \<^verbatim>\<open>_compatibility_matrix\<close>, which starts as the built-in default and is the one
  negotiation reads (the registry's matrix is not consulted).
\<close>

record negotiator =
  neg_registry :: registry
  neg_matrix :: "(string \<times> (string \<times> bool) list) list"

definition default_compatibility_matrix :: "(string \<times> (string \<times> bool) list) list" where
  "default_compatibility_matrix =
     [(''1.0'', [(''1.0'', True), (''0.9'', True)]),
      (''1.1'', [(''1.1'', True), (''1.0'', True), (''0.9'', False)]),
      (''2.0'', [(''2.0'', True), (''1.1'', False), (''1.0'', False)])]"

definition new_negotiator :: "registry \<Rightarrow> negotiator" where
  "new_negotiator r = \<lparr>neg_registry = r, neg_matrix = default_compatibility_matrix\<rparr>"

definition add_compatibility_rule :: "negotiator \<Rightarrow> string \<Rightarrow> string \<Rightarrow> bool \<Rightarrow> negotiator" where
  "add_compatibility_rule ng sv cv c = ng\<lparr>neg_matrix := matrix_set sv cv c (neg_matrix ng)\<rparr>"

definition are_versions_compatible :: "negotiator \<Rightarrow> string \<Rightarrow> string \<Rightarrow> bool" where
  "are_versions_compatible ng server_version client_version =
     matrix_get (neg_matrix ng) server_version client_version"

text \<open>
  \<^verbatim>\<open>
  def _can_provide_features(self, server_version, required_features):
      adapter = self._registry.get_adapter(server_version)
      if not adapter:
          return False
      supported_tools = set(adapter.get_supported_tools())
      if not required_features:
          return True
      return required_features.issubset(supported_tools)
  \<close>
\<close>

definition can_provide_features :: "negotiator \<Rightarrow> string \<Rightarrow> string list \<Rightarrow> bool" where
  "can_provide_features ng server_version required_features =
     (case get_adapter (neg_registry ng) server_version of
        None \<Rightarrow> False
      | Some a \<Rightarrow>
          (if required_features = [] then True
           else list_all (\<lambda>f. f \<in> set (supported_tools a)) required_features))"

text \<open>
  \<^verbatim>\<open>
  def _find_compatible_version(self, client_versions, server_versions, client_features):
      for server_version in sorted(server_versions, reverse=True):
          for client_version in client_versions:
              if self._are_versions_compatible(server_version, client_version):
                  if self._can_provide_features(server_version, client_features):
                      return server_version
      return None
  \<close>
  This \<^verbatim>\<open>sorted\<close> has no key: it orders the version strings as strings.
\<close>

fun serves_some_client :: "negotiator \<Rightarrow> string \<Rightarrow> string list \<Rightarrow> string list \<Rightarrow> bool" where
  "serves_some_client ng sv features [] = False"
| "serves_some_client ng sv features (c # cs) =
     (if are_versions_compatible ng sv c \<and> can_provide_features ng sv features then True
      else serves_some_client ng sv features cs)"

fun first_serving :: "negotiator \<Rightarrow> string list \<Rightarrow> string list \<Rightarrow> string list \<Rightarrow> string option" where
  "first_serving ng client_versions features [] = None"
| "first_serving ng client_versions features (sv # svs) =
     (if serves_some_client ng sv features client_versions then Some sv
      else first_serving ng client_versions features svs)"

definition find_compatible_version ::
  "negotiator \<Rightarrow> string list \<Rightarrow> string list \<Rightarrow> string list \<Rightarrow> string option" where
  "find_compatible_version ng client_versions server_versions client_features =
     first_serving ng client_versions client_features (rev (sort server_versions))"

text \<open>
  \<^verbatim>\<open>
  def _can_client_handle_fallback(self, fallback_version, client_capabilities):
      client_versions = self._extract_client_versions(client_capabilities)
      for client_version in client_versions:
          try:
              client_tuple = self._version_sort_key(client_version)
              fallback_tuple = self._version_sort_key(fallback_version)
              if client_tuple >= fallback_tuple:
                  return True
          except:
              continue
      return False
  \<close>
\<close>

fun some_client_at_least :: "string \<Rightarrow> string list \<Rightarrow> bool" where
  "some_client_at_least fallback_version [] = False"
| "some_client_at_least fallback_version (c # cs) =
     (case tuple_ge (version_sort_key c) (version_sort_key fallback_version) of
        Inr True \<Rightarrow> True
      | Inr False \<Rightarrow> some_client_at_least fallback_version cs
      | Inl e \<Rightarrow> some_client_at_least fallback_version cs)"

definition can_client_handle_fallback :: "string \<Rightarrow> client_capabilities \<Rightarrow> bool" where
  "can_client_handle_fallback fallback_version caps =
     some_client_at_least fallback_version (extract_client_versions caps)"

text \<open>
  The text of a list of strings inside an f-string, for strings that \<^verbatim>\<open>repr\<close> shows
  between single quotes without escapes.
\<close>

fun join_quoted :: "string list \<Rightarrow> string" where
  "join_quoted [] = []"
| "join_quoted [v] = [CHR 0x27] @ v @ [CHR 0x27]"
| "join_quoted (v # w # vs) = [CHR 0x27] @ v @ [CHR 0x27] @ '', '' @ join_quoted (w # vs)"

definition repr_list :: "string list \<Rightarrow> string" where
  "repr_list vs = ''['' @ join_quoted vs @ '']''"

definition no_compatible_version :: "string list \<Rightarrow> string list \<Rightarrow> py_error" where
  "no_compatible_version client_versions server_versions =
     ValueError (''No compatible MCP protocol version found. Client supports: '' @
       repr_list client_versions @ '', Server supports: '' @ repr_list server_versions)"

text \<open>
  \<^verbatim>\<open>set(client_versions) & set(server_versions)\<close>, as a list without repetitions. The
  order in which Python iterates over a set of strings follows their hashes and is not
  fixed by the language; \<^verbatim>\<open>list(exact_matches)\<close> is \<open>hashed exact_matches\<close> for a
  function \<open>hashed\<close> that the negotiation takes as an argument.
\<close>

definition set_and :: "string list \<Rightarrow> string list \<Rightarrow> string list" where
  "set_and xs ys = filter (\<lambda>v. v \<in> set ys) (remdups xs)"

text \<open>
  \<^verbatim>\<open>
  async def negotiate_protocol(self, client_capabilities):
      client_versions = self._extract_client_versions(client_capabilities)
      client_features = self._extract_client_features(client_capabilities)
      server_versions = self._registry.get_supported_versions()
      exact_matches = set(client_versions) & set(server_versions)
      if exact_matches:
          best_match = self._select_latest_version(list(exact_matches))
          return best_match
      compatible_version = self._find_compatible_version(
          client_versions, server_versions, client_features)
      if compatible_version:
          return compatible_version
      basic_version = self._get_fallback_version(server_versions)
      if basic_version and self._can_client_handle_fallback(
              basic_version, client_capabilities):
          return basic_version
      raise ValueError(...)
  \<close>
  A string is true in a condition when it is not empty.
\<close>

definition negotiate_fallback ::
  "client_capabilities \<Rightarrow> string list \<Rightarrow> string list \<Rightarrow> py_error + string" where
  "negotiate_fallback caps client_versions server_versions =
     (case get_fallback_version server_versions of
        Inl e \<Rightarrow> Inl e
      | Inr None \<Rightarrow> Inl (no_compatible_version client_versions server_versions)
      | Inr (Some basic_version) \<Rightarrow>
          (if basic_version \<noteq> [] \<and> can_client_handle_fallback basic_version caps
           then Inr basic_version
           else Inl (no_compatible_version client_versions server_versions)))"

definition negotiate_protocol ::
  "(string list \<Rightarrow> string list) \<Rightarrow> negotiator \<Rightarrow> client_capabilities \<Rightarrow> py_error + string" where
  "negotiate_protocol hashed ng caps =
     (let client_versions = extract_client_versions caps;
          client_features = extract_client_features caps;
          server_versions = get_supported_versions (neg_registry ng);
          exact_matches = set_and client_versions server_versions
      in if exact_matches \<noteq> [] then select_latest_version (hashed exact_matches)
         else (case find_compatible_version ng client_versions server_versions client_features of
                 Some compatible_version \<Rightarrow>
                   (if compatible_version \<noteq> [] then Inr compatible_version
                    else negotiate_fallback caps client_versions server_versions)
               | None \<Rightarrow> negotiate_fallback caps client_versions server_versions))"

text \<open>Registries and capability documents for concrete runs.\<close>

definition adapter_v05 :: adapter where
  "adapter_v05 = \<lparr>supported_version = ''0.5'', supported_tools = [''rag_search''],
     handle_tool_call = no_tool_call\<rparr>"

definition adapter_beta :: adapter where
  "adapter_beta = \<lparr>supported_version = ''beta'', supported_tools = [''rag_search''],
     handle_tool_call = no_tool_call\<rparr>"

definition beta_registry :: registry where
  "beta_registry = run_registry empty_registry [Register adapter_v05, Register adapter_beta]"

definition supports :: "string list \<Rightarrow> client_capabilities" where
  "supports vs = no_capabilities\<lparr>cap_supportedVersions := Some vs\<rparr>"

text \<open>
  For the proofs: a key as a list of lists of integers, ordered lexicographically. An
  integer item \<open>n\<close> is \<open>[0, n]\<close>, a string item is 1 followed by its character codes.
  Where Python's comparison of two keys returns, it is the comparison of their ranks.
\<close>

fun part_rank :: "key_part \<Rightarrow> int list" where
  "part_rank (KInt n) = [0, n]"
| "part_rank (KStr s) = 1 # map (\<lambda>c. int (of_char c)) s"

definition rank :: "string \<Rightarrow> int list list" where
  "rank v = map part_rank (version_sort_key v)"

section \<open>The monitor (monitoring.py)\<close>

text \<open>
  Latencies, rates and thresholds are Python floats. The type \<open>'f\<close> stands for them and
  the operations the monitor applies to them are the fields of \<open>float_ops\<close>, so that
  nothing is assumed about floating-point arithmetic: \<open>f_lit\<close> is a literal, \<open>f_inf\<close> is
  \<^verbatim>\<open>float('inf')\<close>, \<open>f_lt a b\<close> is \<^verbatim>\<open>a < b\<close> (and \<^verbatim>\<open>b > a\<close>), \<open>f_mean xs\<close> is
  \<^verbatim>\<open>sum(xs) / len(xs)\<close>, \<open>f_ratio a b\<close> is \<^verbatim>\<open>a / b\<close> on two integers, \<open>f_exceeded n x\<close> is
  \<^verbatim>\<open>n > x\<close> for an integer \<open>n\<close>. A point in time is a \<open>'t\<close>; \<open>f_cutoff now x\<close> is
  \<^verbatim>\<open>now - timedelta(seconds=x)\<close>, which raises when \<^verbatim>\<open>timedelta\<close> rejects \<open>x\<close> or the
  difference is no \<^verbatim>\<open>datetime\<close>; \<open>f_before t u\<close> is \<^verbatim>\<open>t < u\<close> on two points in time.
\<close>

record ('f, 't) float_ops =
  f_lit :: "rat \<Rightarrow> 'f"
  f_inf :: 'f
  f_lt :: "'f \<Rightarrow> 'f \<Rightarrow> bool"
  f_mean :: "'f list \<Rightarrow> 'f"
  f_ratio :: "int \<Rightarrow> int \<Rightarrow> 'f"
  f_exceeded :: "int \<Rightarrow> 'f \<Rightarrow> bool"
  f_cutoff :: "'t \<Rightarrow> 'f \<Rightarrow> py_error + 't"
  f_before :: "'t \<Rightarrow> 't \<Rightarrow> bool"

text \<open>\<^verbatim>\<open>min(a, b)\<close> and \<^verbatim>\<open>max(a, b)\<close>: the second argument wins only when strictly better.\<close>

definition py_min :: "('f, 't) float_ops \<Rightarrow> 'f \<Rightarrow> 'f \<Rightarrow> 'f" where
  "py_min ops a b = (if f_lt ops b a then b else a)"

definition py_max :: "('f, 't) float_ops \<Rightarrow> 'f \<Rightarrow> 'f \<Rightarrow> 'f" where
  "py_max ops a b = (if f_lt ops a b then b else a)"

text \<open>\<^verbatim>\<open>ConnectionMetrics\<close>, \<^verbatim>\<open>ToolMetrics\<close>, \<^verbatim>\<open>ProtocolMetrics\<close>.\<close>

record 't connection_metrics =
  cm_connected_at :: 't
  cm_protocol_version :: string
  cm_client_info :: pyval
  cm_message_count :: int
  cm_bytes_sent :: int
  cm_bytes_received :: int
  cm_errors :: int
  cm_last_activity :: 't
  cm_tool_calls :: "(string \<times> int) list"

record 'f tool_metrics =
  total_calls :: int
  successful_calls :: int
  failed_calls :: int
  avg_execution_time :: 'f
  min_execution_time :: 'f
  max_execution_time :: 'f
  recent_response_times :: "'f list"
  error_types :: "(string \<times> int) list"

record protocol_metrics =
  total_connections :: int
  active_connections :: int
  total_messages :: int
  handshake_failures :: int
  negotiation_failures :: int

text \<open>
  \<^verbatim>\<open>MCPMonitor\<close>: the live connections, the tool metrics and the protocol metrics, each
  a \<^verbatim>\<open>dict\<close>, and the four alert thresholds.
\<close>

record ('f, 't) monitor =
  mon_connections :: "(string \<times> 't connection_metrics) list"
  mon_tool_metrics :: "(string \<times> 'f tool_metrics) list"
  mon_protocol_metrics :: "(string \<times> protocol_metrics) list"
  thr_max_connections :: 'f
  thr_max_error_rate :: 'f
  thr_max_response_time :: 'f
  thr_connection_timeout :: 'f

definition new_monitor :: "('f, 't) float_ops \<Rightarrow> ('f, 't) monitor" where
  "new_monitor ops =
     \<lparr>mon_connections = [], mon_tool_metrics = [], mon_protocol_metrics = [],
      thr_max_connections = f_lit ops 100, thr_max_error_rate = f_lit ops (1 / 10),
      thr_max_response_time = f_lit ops 30, thr_connection_timeout = f_lit ops 300\<rparr>"

text \<open>\<^verbatim>\<open>ToolMetrics(tool_name)\<close> with its defaults.\<close>

definition new_tool_metrics :: "('f, 't) float_ops \<Rightarrow> 'f tool_metrics" where
  "new_tool_metrics ops =
     \<lparr>total_calls = 0, successful_calls = 0, failed_calls = 0,
      avg_execution_time = f_lit ops 0, min_execution_time = f_inf ops,
      max_execution_time = f_lit ops 0, recent_response_times = [], error_types = []\<rparr>"

text \<open>\<^verbatim>\<open>d[k] += 1\<close> on a \<^verbatim>\<open>defaultdict(int)\<close>.\<close>

definition bump :: "string \<Rightarrow> (string \<times> int) list \<Rightarrow> (string \<times> int) list" where
  "bump k d = dict_set k ((case map_of d k of None \<Rightarrow> 0 | Some n \<Rightarrow> n) + 1) d"

text \<open>\<^verbatim>\<open>append\<close> on a \<^verbatim>\<open>deque(maxlen=100)\<close>: the oldest sample leaves when it is full.\<close>

definition window_append :: "'a \<Rightarrow> 'a list \<Rightarrow> 'a list" where
  "window_append x xs = (let ys = xs @ [x] in drop (length ys - 100) ys)"

text \<open>
  \<^verbatim>\<open>
  async def track_tool_call(self, connection_id, tool_name, execution_time,
                            success, error_type=None):
      if connection_id in self._connections:
          self._connections[connection_id].tool_calls[tool_name] += 1
          if not success:
              self._connections[connection_id].errors += 1
      if tool_name not in self._tool_metrics:
          self._tool_metrics[tool_name] = ToolMetrics(tool_name)
      tool_metrics = self._tool_metrics[tool_name]
      tool_metrics.total_calls += 1
      if success:
          tool_metrics.successful_calls += 1
      else:
          tool_metrics.failed_calls += 1
          if error_type:
              tool_metrics.error_types[error_type] += 1
      tool_metrics.recent_response_times.append(execution_time)
      tool_metrics.min_execution_time = min(tool_metrics.min_execution_time, execution_time)
      tool_metrics.max_execution_time = max(tool_metrics.max_execution_time, execution_time)
      if tool_metrics.recent_response_times:
          tool_metrics.avg_execution_time = sum(...) / len(...)
  \<close>
\<close>

definition update_tool_metrics ::
  "('f, 't) float_ops \<Rightarrow> 'f \<Rightarrow> bool \<Rightarrow> string option \<Rightarrow> 'f tool_metrics \<Rightarrow> 'f tool_metrics" where
  "update_tool_metrics ops execution_time success error_type tm =
     (let recent = window_append execution_time (recent_response_times tm)
      in tm\<lparr>total_calls := total_calls tm + 1,
            successful_calls := (if success then successful_calls tm + 1 else successful_calls tm),
            failed_calls := (if success then failed_calls tm else failed_calls tm + 1),
            error_types :=
              (case error_type of
                 Some e \<Rightarrow> (if \<not> success \<and> e \<noteq> [] then bump e (error_types tm) else error_types tm)
               | None \<Rightarrow> error_types tm),
            recent_response_times := recent,
            min_execution_time := py_min ops (min_execution_time tm) execution_time,
            max_execution_time := py_max ops (max_execution_time tm) execution_time,
            avg_execution_time := (if recent \<noteq> [] then f_mean ops recent else avg_execution_time tm)\<rparr>)"

definition track_tool_call ::
  "('f, 't) float_ops \<Rightarrow> ('f, 't) monitor \<Rightarrow> string \<Rightarrow> string \<Rightarrow> 'f \<Rightarrow> bool \<Rightarrow> string option
    \<Rightarrow> ('f, 't) monitor" where
  "track_tool_call ops m connection_id tool_name execution_time success error_type =
     (let conns =
            (case map_of (mon_connections m) connection_id of
               None \<Rightarrow> mon_connections m
             | Some cm \<Rightarrow>
                 dict_set connection_id
                   (cm\<lparr>cm_tool_calls := bump tool_name (cm_tool_calls cm),
                       cm_errors := (if success then cm_errors cm else cm_errors cm + 1)\<rparr>)
                   (mon_connections m));
          tm = (case map_of (mon_tool_metrics m) tool_name of
                  None \<Rightarrow> new_tool_metrics ops
                | Some tm0 \<Rightarrow> tm0)
      in m\<lparr>mon_connections := conns,
           mon_tool_metrics :=
             dict_set tool_name (update_tool_metrics ops execution_time success error_type tm)
               (mon_tool_metrics m)\<rparr>)"

text \<open>A run of tool-call events: connection, tool, latency, success flag, error type.\<close>

type_synonym 'f tool_call_event = "string \<times> string \<times> 'f \<times> bool \<times> string option"

definition track_tool_calls ::
  "('f, 't) float_ops \<Rightarrow> ('f, 't) monitor \<Rightarrow> 'f tool_call_event list \<Rightarrow> ('f, 't) monitor" where
  "track_tool_calls ops m events =
     foldl (\<lambda>m (c, tool, x, ok, err). track_tool_call ops m c tool x ok err) m events"

text \<open>
  An entry of the \<^verbatim>\<open>issues\<close> list of \<^verbatim>\<open>get_health_status\<close>: its \<^verbatim>\<open>"type"\<close> and
  \<^verbatim>\<open>"severity"\<close>, the tool or the connections it is about, and its threshold. The
  formatted \<^verbatim>\<open>"message"\<close> is left out.
\<close>

record 'f issue =
  issue_type :: string
  severity :: string
  issue_tool :: "string option"
  issue_connections :: "string list"
  issue_threshold :: "'f option"

record 'f health =
  health_status :: string
  health_active_connections :: int
  health_total_issues :: nat
  health_issues :: "'f issue list"

text \<open>
  \<^verbatim>\<open>
  total_active = sum(metrics.active_connections
                     for metrics in self._protocol_metrics.values())
  if total_active > self._alert_thresholds["max_connections"]:
      issues.append({"type": "high_connection_count", "severity": "warning", ...})
  \<close>
\<close>

definition total_active :: "('f, 't) monitor \<Rightarrow> int" where
  "total_active m = sum_list (map (\<lambda>(v, pm). active_connections pm) (mon_protocol_metrics m))"

definition connection_issues :: "('f, 't) float_ops \<Rightarrow> ('f, 't) monitor \<Rightarrow> 'f issue list" where
  "connection_issues ops m =
     (if f_exceeded ops (total_active m) (thr_max_connections m)
      then [\<lparr>issue_type = ''high_connection_count'', severity = ''warning'', issue_tool = None,
             issue_connections = [], issue_threshold = Some (thr_max_connections m)\<rparr>]
      else [])"

text \<open>
  \<^verbatim>\<open>
  for tool_name, tool_metrics in self._tool_metrics.items():
      if tool_metrics.total_calls > 0:
          error_rate = tool_metrics.failed_calls / tool_metrics.total_calls
          if error_rate > self._alert_thresholds["max_error_rate"]:
              issues.append({"type": "high_error_rate", "severity": "critical", ...})
  \<close>
\<close>

definition high_error_rate :: "('f, 't) float_ops \<Rightarrow> ('f, 't) monitor \<Rightarrow> 'f tool_metrics \<Rightarrow> bool" where
  "high_error_rate ops m tm =
     (total_calls tm > 0 \<and>
      f_lt ops (thr_max_error_rate m) (f_ratio ops (failed_calls tm) (total_calls tm)))"

fun error_rate_issues ::
  "('f, 't) float_ops \<Rightarrow> ('f, 't) monitor \<Rightarrow> (string \<times> 'f tool_metrics) list \<Rightarrow> 'f issue list" where
  "error_rate_issues ops m [] = []"
| "error_rate_issues ops m ((tool_name, tm) # rest) =
     (if high_error_rate ops m tm
      then \<lparr>issue_type = ''high_error_rate'', severity = ''critical'', issue_tool = Some tool_name,
             issue_connections = [], issue_threshold = Some (thr_max_error_rate m)\<rparr>
           # error_rate_issues ops m rest
      else error_rate_issues ops m rest)"

text \<open>
  \<^verbatim>\<open>
  for tool_name, tool_metrics in self._tool_metrics.items():
      if tool_metrics.avg_execution_time > self._alert_thresholds["max_response_time"]:
          issues.append({"type": "slow_response", "severity": "warning", ...})
  \<close>
\<close>

definition slow_response :: "('f, 't) float_ops \<Rightarrow> ('f, 't) monitor \<Rightarrow> 'f tool_metrics \<Rightarrow> bool" where
  "slow_response ops m tm = f_lt ops (thr_max_response_time m) (avg_execution_time tm)"

fun response_time_issues ::
  "('f, 't) float_ops \<Rightarrow> ('f, 't) monitor \<Rightarrow> (string \<times> 'f tool_metrics) list \<Rightarrow> 'f issue list" where
  "response_time_issues ops m [] = []"
| "response_time_issues ops m ((tool_name, tm) # rest) =
     (if slow_response ops m tm
      then \<lparr>issue_type = ''slow_response'', severity = ''warning'', issue_tool = Some tool_name,
             issue_connections = [], issue_threshold = Some (thr_max_response_time m)\<rparr>
           # response_time_issues ops m rest
      else response_time_issues ops m rest)"

text \<open>
  \<^verbatim>\<open>
  stale_connections = []
  cutoff_time = now - timedelta(seconds=self._alert_thresholds["connection_timeout"])
  for conn_id, metrics in self._connections.items():
      if metrics.last_activity < cutoff_time:
          stale_connections.append(conn_id)
  if stale_connections:
      issues.append({"type": "stale_connections", "severity": "info", ...})
  \<close>
\<close>

definition stale_connections :: "('f, 't) float_ops \<Rightarrow> 't \<Rightarrow> ('f, 't) monitor \<Rightarrow> string list" where
  "stale_connections ops cutoff_time m =
     map fst (filter (\<lambda>(conn_id, cm). f_before ops (cm_last_activity cm) cutoff_time)
                (mon_connections m))"

definition stale_issues :: "('f, 't) float_ops \<Rightarrow> 't \<Rightarrow> ('f, 't) monitor \<Rightarrow> 'f issue list" where
  "stale_issues ops cutoff_time m =
     (if stale_connections ops cutoff_time m \<noteq> []
      then [\<lparr>issue_type = ''stale_connections'', severity = ''info'', issue_tool = None,
             issue_connections = stale_connections ops cutoff_time m, issue_threshold = None\<rparr>]
      else [])"

text \<open>
  \<^verbatim>\<open>
  if any(issue["severity"] == "critical" for issue in issues):
      status = "unhealthy"
  elif any(issue["severity"] == "warning" for issue in issues):
      status = "degraded"
  else:
      status = "healthy"
  \<close>
\<close>

definition overall_status :: "'f issue list \<Rightarrow> string" where
  "overall_status issues =
     (if list_ex (\<lambda>i. severity i = ''critical'') issues then ''unhealthy''
      else if list_ex (\<lambda>i. severity i = ''warning'') issues then ''degraded''
      else ''healthy'')"

text \<open>
  \<^verbatim>\<open>get_health_status\<close>, at the time \<open>now\<close>. An exception of the cutoff computation
  leaves the function: there is no \<^verbatim>\<open>try\<close> in it. Of the returned dictionary the
  \<^verbatim>\<open>"timestamp"\<close> and \<^verbatim>\<open>"uptime_seconds"\<close> entries are left out.
\<close>

definition health_issue_list :: "('f, 't) float_ops \<Rightarrow> 't \<Rightarrow> ('f, 't) monitor \<Rightarrow> 'f issue list" where
  "health_issue_list ops cutoff_time m =
     connection_issues ops m @ error_rate_issues ops m (mon_tool_metrics m) @
     response_time_issues ops m (mon_tool_metrics m) @ stale_issues ops cutoff_time m"

definition get_health_status ::
  "('f, 't) float_ops \<Rightarrow> 't \<Rightarrow> ('f, 't) monitor \<Rightarrow> py_error + 'f health" where
  "get_health_status ops now m =
     (case f_cutoff ops now (thr_connection_timeout m) of
        Inl ex \<Rightarrow> Inl ex
      | Inr cutoff_time \<Rightarrow>
          Inr \<lparr>health_status = overall_status (health_issue_list ops cutoff_time m),
               health_active_connections = total_active m,
               health_total_issues = length (health_issue_list ops cutoff_time m),
               health_issues = health_issue_list ops cutoff_time m\<rparr>)"

text \<open>
  \<^verbatim>\<open>
  def set_alert_threshold(self, threshold_name, value):
      if threshold_name in self._alert_thresholds:
          self._alert_thresholds[threshold_name] = value
  \<close>
\<close>

definition set_alert_threshold :: "('f, 't) monitor \<Rightarrow> string \<Rightarrow> 'f \<Rightarrow> ('f, 't) monitor" where
  "set_alert_threshold m threshold_name x =
     (if threshold_name = ''max_connections'' then m\<lparr>thr_max_connections := x\<rparr>
      else if threshold_name = ''max_error_rate'' then m\<lparr>thr_max_error_rate := x\<rparr>
      else if threshold_name = ''max_response_time'' then m\<lparr>thr_max_response_time := x\<rparr>
      else if threshold_name = ''connection_timeout'' then m\<lparr>thr_connection_timeout := x\<rparr>
      else m)"

subsection \<open>Two arithmetics\<close>

text \<open>
  Two instances of \<open>float_ops\<close>. The first is exact arithmetic on the rationals with
  a point at infinity, with time in seconds since \<^verbatim>\<open>datetime.min\<close>, not rounded to
  microseconds. \<^verbatim>\<open>timedelta\<close> raises \<^verbatim>\<open>OverflowError\<close> on an infinity, and on a number
  of seconds that is less than -999999999 days or at least 1000000000 days (the message,
  which names the number of days, is shortened here); a \<^verbatim>\<open>datetime\<close> lies in the years 1
  to 9999, that is within 3652059 days of \<^verbatim>\<open>datetime.min\<close>, and the subtraction raises
  \<^verbatim>\<open>OverflowError\<close> when the difference does not.
\<close>

datatype xrat = Num rat | Infinity

fun xrat_lt :: "xrat \<Rightarrow> xrat \<Rightarrow> bool" where
  "xrat_lt (Num a) (Num b) = (a < b)"
| "xrat_lt (Num a) Infinity = True"
| "xrat_lt Infinity b = False"

fun num_of :: "xrat \<Rightarrow> rat" where
  "num_of (Num a) = a"
| "num_of Infinity = 0"

fun xrat_finite :: "xrat \<Rightarrow> bool" where
  "xrat_finite (Num a) = True"
| "xrat_finite Infinity = False"

definition xrat_mean :: "xrat list \<Rightarrow> xrat" where
  "xrat_mean xs =
     (if list_all xrat_finite xs then Num (sum_list (map num_of xs) / of_nat (length xs))
      else Infinity)"

fun xrat_exceeded :: "int \<Rightarrow> xrat \<Rightarrow> bool" where
  "xrat_exceeded n (Num x) = (of_int n > x)"
| "xrat_exceeded n Infinity = False"

fun xrat_cutoff :: "rat \<Rightarrow> xrat \<Rightarrow> py_error + rat" where
  "xrat_cutoff now Infinity = Inl (OverflowError ''cannot convert float infinity to integer'')"
| "xrat_cutoff now (Num x) =
     (if x < - (86400 * 999999999) \<or> x \<ge> 86400 * 1000000000
      then Inl (OverflowError ''days out of range'')
      else if now - x < 0 \<or> now - x \<ge> 86400 * 3652059
      then Inl (OverflowError ''date value out of range'')
      else Inr (now - x))"

definition exact_ops :: "(xrat, rat) float_ops" where
  "exact_ops =
     \<lparr>f_lit = Num, f_inf = Infinity, f_lt = xrat_lt, f_mean = xrat_mean,
      f_ratio = (\<lambda>a b. Num (of_int a / of_int b)),
      f_exceeded = xrat_exceeded, f_cutoff = xrat_cutoff, f_before = (\<lambda>t u. t < u)\<rparr>"












subsection \<open>Order, mean and window\<close>








subsection \<open>Monitors for concrete runs\<close>

text \<open>
  The time of the calls below, in seconds since \<^verbatim>\<open>datetime.min\<close>: 29 November 2025,
  08:00.
\<close>

definition a_time :: rat where
  "a_time = 63900000000"

definition idle_connection :: "rat connection_metrics" where
  "idle_connection =
     \<lparr>cm_connected_at = a_time - 1000, cm_protocol_version = ''1.0'', cm_client_info = PDict [],
      cm_message_count = 0, cm_bytes_sent = 0, cm_bytes_received = 0, cm_errors = 0,
      cm_last_activity = a_time - 1000, cm_tool_calls = []\<rparr>"

definition busy_monitor :: "(xrat, rat) monitor" where
  "busy_monitor =
     track_tool_calls exact_ops
       ((new_monitor exact_ops)\<lparr>mon_connections := [(''c1'', idle_connection)]\<rparr>)
       [(''c1'', ''rag_search'', Num (1 / 2), True, None),
        (''c1'', ''rag_search'', Num 1, False, Some ''ValueError'')]"

definition crowded_monitor :: "(xrat, rat) monitor" where
  "crowded_monitor =
     (new_monitor exact_ops)
       \<lparr>mon_protocol_metrics :=
          [(''1.0'', \<lparr>total_connections = 120, active_connections = 100, total_messages = 0,
                     handshake_failures = 0, negotiation_failures = 0\<rparr>),
           (''1.1'', \<lparr>total_connections = 50, active_connections = 50, total_messages = 0,
                     handshake_failures = 0, negotiation_failures = 0\<rparr>)]\<rparr>"

definition slow_monitor :: "(xrat, rat) monitor" where
  "slow_monitor =
     track_tool_calls exact_ops (new_monitor exact_ops)
       [(''c1'', ''rag_summarize'', Num 45, True, None)]"


section \<open>The server (server.py)\<close>

subsection \<open>Messages\<close>

text \<open>\<^verbatim>\<open>message.get(key, default)\<close>: only a dictionary has \<^verbatim>\<open>get\<close>.\<close>

definition dict_get :: "pyval \<Rightarrow> string \<Rightarrow> pyval \<Rightarrow> py_error + pyval" where
  "dict_get m k dflt =
     (case m of
        PDict d \<Rightarrow> Inr (case map_of d k of Some v \<Rightarrow> v | None \<Rightarrow> dflt)
      | _ \<Rightarrow> Inl (AttributeError ''object has no attribute get''))"

text \<open>The truth of a Python value in a condition.\<close>

fun truthy :: "pyval \<Rightarrow> bool" where
  "truthy PNone = False"
| "truthy (PBool b) = b"
| "truthy (PInt n) = (n \<noteq> 0)"
| "truthy (PFloat q) = (q \<noteq> 0)"
| "truthy (PStr s) = (s \<noteq> [])"
| "truthy (PList xs) = (xs \<noteq> [])"
| "truthy (PDict d) = (d \<noteq> [])"
| "truthy (PObj n) = True"

text \<open>
  A value inside an f-string. Only the text of a string, of \<^verbatim>\<open>None\<close> and of a truth
  value is modelled; the text of any other value is left as a mark.
\<close>

fun text_of :: "pyval \<Rightarrow> string" where
  "text_of (PStr s) = s"
| "text_of PNone = ''None''"
| "text_of (PBool b) = (if b then ''True'' else ''False'')"
| "text_of v = ''...''"

text \<open>\<^verbatim>\<open>type(e).__name__\<close>\<close>

fun class_name :: "py_error \<Rightarrow> string" where
  "class_name (ValueError m) = ''ValueError''"
| "class_name (TypeError m) = ''TypeError''"
| "class_name (RuntimeError m) = ''RuntimeError''"
| "class_name (AttributeError m) = ''AttributeError''"
| "class_name (IndexError m) = ''IndexError''"
| "class_name (OverflowError m) = ''OverflowError''"
| "class_name WebSocketDisconnect = ''WebSocketDisconnect''"

text \<open>
  \<^verbatim>\<open>json.dumps\<close> raises \<^verbatim>\<open>TypeError\<close> on a value that holds an object it cannot encode.
\<close>

primrec json_serializable :: "pyval \<Rightarrow> bool" where
  "json_serializable PNone = True"
| "json_serializable (PBool b) = True"
| "json_serializable (PInt n) = True"
| "json_serializable (PFloat q) = True"
| "json_serializable (PStr s) = True"
| "json_serializable (PList xs) = list_all (\<lambda>b. b) (map json_serializable xs)"
| "json_serializable (PDict d) = list_all snd (map (map_prod (\<lambda>k. k) json_serializable) d)"
| "json_serializable (PObj n) = False"

subsection \<open>The transport and the connection\<close>

text \<open>
  The WebSocket as the server sees it: \<^verbatim>\<open>client_state\<close>, the messages written with
  \<^verbatim>\<open>send_text\<close> (before their encoding) and the code of \<^verbatim>\<open>close\<close>. What the client
  sends is a list of text frames, given to the functions that read; when the list is
  exhausted the client has gone and \<^verbatim>\<open>receive_text\<close> raises \<^verbatim>\<open>WebSocketDisconnect\<close>.
\<close>

datatype ws_state = CONNECTING | CONNECTED | DISCONNECTED

record websocket =
  client_state :: ws_state
  sent :: "pyval list"
  close_code :: "int option"

definition new_websocket :: websocket where
  "new_websocket = \<lparr>client_state = CONNECTING, sent = [], close_code = None\<rparr>"

definition ws_accept :: "websocket \<Rightarrow> websocket" where
  "ws_accept ws = ws\<lparr>client_state := CONNECTED\<rparr>"

definition ws_close :: "int \<Rightarrow> websocket \<Rightarrow> websocket" where
  "ws_close code ws = ws\<lparr>client_state := DISCONNECTED, close_code := Some code\<rparr>"

text \<open>\<^verbatim>\<open>MCPConnection\<close>\<close>

record connection =
  connection_id :: string
  conn_websocket :: websocket
  negotiated_version :: "string option"
  message_count :: int
  client_info :: pyval
  is_authenticated :: bool

definition new_connection :: "string \<Rightarrow> websocket \<Rightarrow> connection" where
  "new_connection cid ws =
     \<lparr>connection_id = cid, conn_websocket = ws, negotiated_version = None, message_count = 0,
      client_info = PDict [], is_authenticated = False\<rparr>"

text \<open>
  \<^verbatim>\<open>
  async def send_message(self, message):
      if self.websocket.client_state != WebSocketState.CONNECTED:
          raise RuntimeError("WebSocket is not connected")
      await self.websocket.send_text(json.dumps(message))
  \<close>
\<close>

definition send_message :: "connection \<Rightarrow> pyval \<Rightarrow> (py_error + unit) \<times> connection" where
  "send_message c message =
     (if client_state (conn_websocket c) \<noteq> CONNECTED
      then (Inl (RuntimeError ''WebSocket is not connected''), c)
      else if \<not> json_serializable message
      then (Inl (TypeError ''Object is not JSON serializable''), c)
      else (Inr (),
            c\<lparr>conn_websocket := (conn_websocket c)\<lparr>sent := sent (conn_websocket c) @ [message]\<rparr>\<rparr>))"

text \<open>
  \<^verbatim>\<open>
  async def receive_message(self):
      if self.websocket.client_state != WebSocketState.CONNECTED:
          raise RuntimeError("WebSocket is not connected")
      raw_message = await self.websocket.receive_text()
      self.message_count += 1
      try:
          message = json.loads(raw_message)
          logger.debug(f"Received message from {self.connection_id}: "
                       f"{message.get('type', 'unknown')}")
          return message
      except json.JSONDecodeError as e:
          raise ValueError(f"Invalid JSON message: {str(e)}")
  \<close>
  \<open>loads\<close> is \<^verbatim>\<open>json.loads\<close>, \<open>Inl\<close> the text of its \<^verbatim>\<open>JSONDecodeError\<close>. \<open>frame\<close> is
  what \<^verbatim>\<open>receive_text\<close> has to deliver: a text frame, or nothing when the client has
  gone. The argument of \<^verbatim>\<open>logger.debug\<close> is built whatever the log level is: on a frame
  that decodes to a value other than an object, \<^verbatim>\<open>message.get\<close> raises
  \<^verbatim>\<open>AttributeError\<close>, which the \<^verbatim>\<open>except\<close> clause does not catch.
\<close>

definition receive_message ::
  "(string \<Rightarrow> string + pyval) \<Rightarrow> connection \<Rightarrow> string option \<Rightarrow> (py_error + pyval) \<times> connection" where
  "receive_message loads c frame =
     (if client_state (conn_websocket c) \<noteq> CONNECTED
      then (Inl (RuntimeError ''WebSocket is not connected''), c)
      else (case frame of
              None \<Rightarrow>
                (Inl WebSocketDisconnect,
                 c\<lparr>conn_websocket := (conn_websocket c)\<lparr>client_state := DISCONNECTED\<rparr>\<rparr>)
            | Some raw_message \<Rightarrow>
                (let c1 = c\<lparr>message_count := message_count c + 1\<rparr>
                 in (case loads raw_message of
                       Inr message \<Rightarrow>
                         (case dict_get message ''type'' (PStr ''unknown'') of
                            Inl ex \<Rightarrow> (Inl ex, c1)
                          | Inr _ \<Rightarrow> (Inr message, c1))
                     | Inl detail \<Rightarrow> (Inl (ValueError (''Invalid JSON message: '' @ detail)), c1)))))"

text \<open>Reading frame after frame, whatever each call returns or raises.\<close>

fun receive_all :: "(string \<Rightarrow> string + pyval) \<Rightarrow> connection \<Rightarrow> string list \<Rightarrow> connection" where
  "receive_all loads c [] = c"
| "receive_all loads c (raw # rest) = receive_all loads (snd (receive_message loads c (Some raw))) rest"

subsection \<open>The server\<close>

text \<open>
  What the server is built on and does not define: \<^verbatim>\<open>json.loads\<close>, the negotiator's
  \<^verbatim>\<open>negotiate_protocol\<close> and \<^verbatim>\<open>_extract_client_versions\<close> on the decoded capabilities
  of a \<^verbatim>\<open>hello\<close>, and the readings of the clock (\<^verbatim>\<open>isoformat()\<close> of the time, and the
  seconds a tool call took; one reading stands for all of a run, since no property depends
  on them).
\<close>

record env =
  json_loads :: "string \<Rightarrow> string + pyval"
  negotiate :: "pyval \<Rightarrow> py_error + string"
  client_versions_of :: "pyval \<Rightarrow> pyval"
  stamp :: string
  elapsed :: rat

text \<open>
  The calls that the server makes to its monitor, in order. What each call does to the
  monitor is the monitor's part; the byte size of \<^verbatim>\<open>track_message\<close> and the latency of
  \<^verbatim>\<open>track_tool_call\<close> are left out.
\<close>

datatype monitor_event =
    ConnectionStarted string "string option" pyval
  | ConnectionEnded string
  | MessageTracked string pyval
  | ToolCallTracked string string bool "string option"
  | NegotiationFailureTracked pyval string

text \<open>
  \<^verbatim>\<open>MCPServer\<close>: the registry, the negotiator, the cap, the keys of \<^verbatim>\<open>_connections\<close>,
  the two counters, the calls made to the monitor, and the log of the calls made to
  \<^verbatim>\<open>adapter.handle_tool_call\<close> (tool name and parameters), which is how a tool dispatch
  shows in the model.
\<close>

record server =
  srv_registry :: registry
  srv_negotiator :: negotiator
  srv_max_connections :: int
  srv_connections :: "string list"
  srv_total_connections :: int
  srv_total_messages :: int
  srv_monitor_events :: "monitor_event list"
  srv_dispatch_log :: "(string \<times> pyval) list"

definition new_server :: "registry \<Rightarrow> negotiator \<Rightarrow> int \<Rightarrow> server" where
  "new_server r ng cap =
     \<lparr>srv_registry = r, srv_negotiator = ng, srv_max_connections = cap, srv_connections = [],
      srv_total_connections = 0, srv_total_messages = 0, srv_monitor_events = [],
      srv_dispatch_log = []\<rparr>"

definition track :: "monitor_event \<Rightarrow> server \<Rightarrow> server" where
  "track ev srv = srv\<lparr>srv_monitor_events := srv_monitor_events srv @ [ev]\<rparr>"

definition error_reply :: "pyval \<Rightarrow> string \<Rightarrow> string \<Rightarrow> string option \<Rightarrow> pyval" where
  "error_reply message_id code message timestamp =
     PDict [(''type'', PStr ''error''), (''id'', message_id),
            (''error'', PDict ([(''code'', PStr code), (''message'', PStr message)] @
               (case timestamp of None \<Rightarrow> [] | Some t \<Rightarrow> [(''timestamp'', PStr t)])))]"

text \<open>
  \<^verbatim>\<open>
  async def _handle_tool_call(self, adapter, message):
      tool_name = message.get("tool")
      parameters = message.get("parameters", {})
      message_id = message.get("id")
      if not tool_name:
          raise ValueError("Missing 'tool' field in tool_call message")
      if tool_name not in adapter.get_supported_tools():
          raise ValueError(f"Unsupported tool: {tool_name}")
      start_time = datetime.utcnow()
      try:
          result = await adapter.handle_tool_call(tool_name, parameters)
          ...
          await self._monitor.track_tool_call("unknown", tool_name, execution_time, success=True)
          return {"type": "tool_response", "id": message_id, "tool": tool_name,
                  "result": result, "execution_time_ms": ..., "timestamp": ...}
      except Exception as e:
          ...
          await self._monitor.track_tool_call("unknown", tool_name, execution_time,
                                              success=False, error_type=type(e).__name__)
          return {"type": "tool_error", "id": message_id, "tool": tool_name,
                  "error": {"code": "TOOL_EXECUTION_ERROR", "message": str(e), ...}}
  \<close>
  The message is a dictionary here, \<open>d\<close>. A tool name that is in the adapter's list of
  strings is a string.
\<close>

definition unsupported_tool :: "pyval \<Rightarrow> py_error" where
  "unsupported_tool tool_name = ValueError (''Unsupported tool: '' @ text_of tool_name)"

definition missing_tool :: py_error where
  "missing_tool =
     ValueError (''Missing '' @ [CHR 0x27] @ ''tool'' @ [CHR 0x27] @ '' field in tool_call message'')"

definition dispatch_tool ::
  "env \<Rightarrow> server \<Rightarrow> adapter \<Rightarrow> pyval \<Rightarrow> string \<Rightarrow> pyval \<Rightarrow> pyval \<times> server" where
  "dispatch_tool e srv a message_id tool parameters =
     (let srv1 = srv\<lparr>srv_dispatch_log := srv_dispatch_log srv @ [(tool, parameters)]\<rparr>
      in (case handle_tool_call a tool parameters of
            Inr result \<Rightarrow>
              (PDict [(''type'', PStr ''tool_response''), (''id'', message_id), (''tool'', PStr tool),
                      (''result'', result), (''execution_time_ms'', PFloat (elapsed e * 1000)),
                      (''timestamp'', PStr (stamp e))],
               track (ToolCallTracked ''unknown'' tool True None) srv1)
          | Inl ex \<Rightarrow>
              (PDict [(''type'', PStr ''tool_error''), (''id'', message_id), (''tool'', PStr tool),
                      (''error'', PDict [(''code'', PStr ''TOOL_EXECUTION_ERROR''),
                                         (''message'', PStr (str_of ex)),
                                         (''execution_time_ms'', PFloat (elapsed e * 1000)),
                                         (''timestamp'', PStr (stamp e))])],
               track (ToolCallTracked ''unknown'' tool False (Some (class_name ex))) srv1)))"

definition handle_tool_call_message ::
  "env \<Rightarrow> server \<Rightarrow> adapter \<Rightarrow> (string \<times> pyval) list \<Rightarrow> (py_error + pyval) \<times> server" where
  "handle_tool_call_message e srv a d =
     (let tool_name = (case map_of d ''tool'' of Some v \<Rightarrow> v | None \<Rightarrow> PNone);
          parameters = (case map_of d ''parameters'' of Some v \<Rightarrow> v | None \<Rightarrow> PDict []);
          message_id = (case map_of d ''id'' of Some v \<Rightarrow> v | None \<Rightarrow> PNone)
      in if \<not> truthy tool_name then (Inl missing_tool, srv)
         else (case tool_name of
                 PStr tool \<Rightarrow>
                   (if tool \<in> set (supported_tools a)
                    then (case dispatch_tool e srv a message_id tool parameters of
                            (reply, srv1) \<Rightarrow> (Inr reply, srv1))
                    else (Inl (unsupported_tool tool_name), srv))
               | _ \<Rightarrow> (Inl (unsupported_tool tool_name), srv)))"

text \<open>\<^verbatim>\<open>_handle_get_capabilities\<close>\<close>

definition handle_get_capabilities :: "adapter \<Rightarrow> (string \<times> pyval) list \<Rightarrow> pyval" where
  "handle_get_capabilities a d =
     PDict [(''type'', PStr ''capabilities''),
            (''id'', (case map_of d ''id'' of Some v \<Rightarrow> v | None \<Rightarrow> PNone)),
            (''capabilities'',
             PDict [(''protocol_version'', PStr (supported_version a)),
                    (''tools'', PList (map PStr (supported_tools a))),
                    (''features'', PList [PStr ''async_tools'', PStr ''error_handling'',
                                          PStr ''progress_tracking'']),
                    (''limits'', PDict [(''max_message_size'', PInt (10 * 1024 * 1024)),
                                        (''max_tool_calls_per_minute'', PInt 100),
                                        (''max_concurrent_calls'', PInt 10)])])]"

text \<open>
  \<^verbatim>\<open>
  async def get_protocol_info(self, version):          # negotiation.py
      adapter = self._registry.get_adapter(version)
      if not adapter:
          raise ValueError(f"Unknown protocol version: {version}")
      return {"version": version, "supported_tools": adapter.get_supported_tools(),
              "compatible_with": [client_v for client_v, compat in
                                  self._compatibility_matrix.get(version, {}).items() if compat],
              "features": {"tool_count": len(adapter.get_supported_tools()),
                           "backward_compatible": any(
                               self._compatibility_matrix.get(version, {}).values())}}
  \<close>
\<close>

definition get_protocol_info :: "negotiator \<Rightarrow> string \<Rightarrow> py_error + pyval" where
  "get_protocol_info ng v =
     (case get_adapter (neg_registry ng) v of
        None \<Rightarrow> Inl (ValueError (''Unknown protocol version: '' @ v))
      | Some a \<Rightarrow>
          (let row = (case map_of (neg_matrix ng) v of None \<Rightarrow> [] | Some rw \<Rightarrow> rw)
           in Inr (PDict [(''version'', PStr v),
                          (''supported_tools'', PList (map PStr (supported_tools a))),
                          (''compatible_with'', PList (map (\<lambda>p. PStr (fst p)) (filter snd row))),
                          (''features'',
                           PDict [(''tool_count'', PInt (int (length (supported_tools a)))),
                                  (''backward_compatible'', PBool (list_ex snd row))])])))"

text \<open>
  \<^verbatim>\<open>
  async def _handle_get_protocol_info(self, connection, message):
      if not connection.negotiated_version:
          raise ValueError("No protocol version negotiated")
      protocol_info = await self._negotiator.get_protocol_info(connection.negotiated_version)
      return {"type": "protocol_info", "id": message.get("id"), "info": protocol_info}
  \<close>
\<close>

definition handle_get_protocol_info ::
  "server \<Rightarrow> connection \<Rightarrow> (string \<times> pyval) list \<Rightarrow> py_error + pyval" where
  "handle_get_protocol_info srv c d =
     (case negotiated_version c of
        None \<Rightarrow> Inl (ValueError ''No protocol version negotiated'')
      | Some v \<Rightarrow>
          (if v = [] then Inl (ValueError ''No protocol version negotiated'')
           else (case get_protocol_info (srv_negotiator srv) v of
                   Inl ex \<Rightarrow> Inl ex
                 | Inr info \<Rightarrow>
                     Inr (PDict [(''type'', PStr ''protocol_info''),
                                 (''id'', (case map_of d ''id'' of Some v \<Rightarrow> v | None \<Rightarrow> PNone)),
                                 (''info'', info)]))))"

text \<open>
  \<^verbatim>\<open>
  async def _handle_message(self, connection, adapter, message):
      message_type = message.get("type")
      message_id = message.get("id")
      try:
          if message_type == "tool_call":
              return await self._handle_tool_call(adapter, message)
          elif message_type == "ping":
              return {"type": "pong", "id": message_id}
          elif message_type == "get_capabilities":
              return await self._handle_get_capabilities(adapter, message)
          elif message_type == "get_protocol_info":
              return await self._handle_get_protocol_info(connection, message)
          else:
              return {"type": "error", "id": message_id,
                      "error": {"code": "UNKNOWN_MESSAGE_TYPE",
                                "message": f"Unknown message type: {message_type}"}}
      except Exception as e:
          return {"type": "error", "id": message_id,
                  "error": {"code": "HANDLER_ERROR", "message": str(e), "timestamp": ...}}
  \<close>
  The two \<^verbatim>\<open>get\<close> calls stand before the \<^verbatim>\<open>try\<close>: on a message that is no
  dictionary the \<^verbatim>\<open>AttributeError\<close> leaves the function.
\<close>

definition handle_message ::
  "env \<Rightarrow> server \<Rightarrow> connection \<Rightarrow> adapter \<Rightarrow> pyval \<Rightarrow> (py_error + pyval) \<times> server" where
  "handle_message e srv c a message =
     (case message of
        PDict d \<Rightarrow>
          (let message_type = (case map_of d ''type'' of Some v \<Rightarrow> v | None \<Rightarrow> PNone);
               message_id = (case map_of d ''id'' of Some v \<Rightarrow> v | None \<Rightarrow> PNone)
           in if message_type = PStr ''tool_call''
              then (case handle_tool_call_message e srv a d of
                      (Inr reply, srv1) \<Rightarrow> (Inr reply, srv1)
                    | (Inl ex, srv1) \<Rightarrow>
                        (Inr (error_reply message_id ''HANDLER_ERROR'' (str_of ex) (Some (stamp e))), srv1))
              else if message_type = PStr ''ping''
              then (Inr (PDict [(''type'', PStr ''pong''), (''id'', message_id)]), srv)
              else if message_type = PStr ''get_capabilities''
              then (Inr (handle_get_capabilities a d), srv)
              else if message_type = PStr ''get_protocol_info''
              then (case handle_get_protocol_info srv c d of
                      Inr reply \<Rightarrow> (Inr reply, srv)
                    | Inl ex \<Rightarrow>
                        (Inr (error_reply message_id ''HANDLER_ERROR'' (str_of ex) (Some (stamp e))), srv))
              else (Inr (error_reply message_id ''UNKNOWN_MESSAGE_TYPE''
                           (''Unknown message type: '' @ text_of message_type) None), srv))
      | _ \<Rightarrow> (Inl (AttributeError ''object has no attribute get''), srv))"

subsection \<open>The message loop\<close>

text \<open>
  \<^verbatim>\<open>
  while True:
      try:
          message = await connection.receive_message()
          self._total_messages += 1
          message_size = len(str(message))
          await self._monitor.track_message(connection.connection_id,
                                            message.get("type", "unknown"), message_size, ...)
          response = await self._handle_message(connection, adapter, message)
          if response:
              await connection.send_message(response)
      except WebSocketDisconnect:
          raise
      except Exception as e:
          try:
              await connection.send_message({
                  "type": "error",
                  "request_id": message.get("id"),
                  "error": {"code": "MESSAGE_PROCESSING_ERROR", "message": str(e),
                            "timestamp": datetime.utcnow().isoformat()}})
          except:
              break
  \<close>
  In the handler \<^verbatim>\<open>message\<close> is the last message that \<^verbatim>\<open>receive_message\<close> returned,
  in this round or an earlier one (\<open>prev\<close>); when there is none yet the name is unbound,
  and that error, like any other raised while the error reply is built or sent, ends
  the loop.
\<close>

definition processing_error_reply :: "env \<Rightarrow> pyval \<Rightarrow> py_error \<Rightarrow> pyval" where
  "processing_error_reply e request_id ex =
     PDict [(''type'', PStr ''error''), (''request_id'', request_id),
            (''error'', PDict [(''code'', PStr ''MESSAGE_PROCESSING_ERROR''),
                               (''message'', PStr (str_of ex)),
                               (''timestamp'', PStr (stamp e))])]"

text \<open>The inner \<^verbatim>\<open>try\<close>: \<open>True\<close> when the error reply was sent, \<open>False\<close> for \<^verbatim>\<open>break\<close>.\<close>

definition report_error :: "env \<Rightarrow> connection \<Rightarrow> pyval option \<Rightarrow> py_error \<Rightarrow> bool \<times> connection" where
  "report_error e c prev ex =
     (case prev of
        None \<Rightarrow> (False, c)
      | Some message \<Rightarrow>
          (case dict_get message ''id'' PNone of
             Inl _ \<Rightarrow> (False, c)
           | Inr request_id \<Rightarrow>
               (case send_message c (processing_error_reply e request_id ex) of
                  (Inl _, c1) \<Rightarrow> (False, c1)
                | (Inr _, c1) \<Rightarrow> (True, c1))))"

text \<open>One round of the loop: go on, leave the loop by \<^verbatim>\<open>break\<close>, or raise.\<close>

datatype round_result =
    Continue server connection "pyval option"
  | Break server connection
  | Raise py_error server connection

definition on_exception ::
  "env \<Rightarrow> server \<Rightarrow> connection \<Rightarrow> pyval option \<Rightarrow> py_error \<Rightarrow> round_result" where
  "on_exception e srv c prev ex =
     (if ex = WebSocketDisconnect then Raise ex srv c
      else (case report_error e c prev ex of
              (True, c1) \<Rightarrow> Continue srv c1 prev
            | (False, c1) \<Rightarrow> Break srv c1))"

definition loop_round ::
  "env \<Rightarrow> adapter \<Rightarrow> server \<Rightarrow> connection \<Rightarrow> pyval option \<Rightarrow> string option \<Rightarrow> round_result" where
  "loop_round e a srv c prev frame =
     (case receive_message (json_loads e) c frame of
        (Inl ex, c1) \<Rightarrow> on_exception e srv c1 prev ex
      | (Inr message, c1) \<Rightarrow>
          (let srv1 = srv\<lparr>srv_total_messages := srv_total_messages srv + 1\<rparr>
           in (case dict_get message ''type'' (PStr ''unknown'') of
                 Inl ex \<Rightarrow> on_exception e srv1 c1 (Some message) ex
               | Inr message_type \<Rightarrow>
                   (let srv2 = track (MessageTracked (connection_id c1) message_type) srv1
                    in (case handle_message e srv2 c1 a message of
                          (Inl ex, srv3) \<Rightarrow> on_exception e srv3 c1 (Some message) ex
                        | (Inr response, srv3) \<Rightarrow>
                            (if truthy response
                             then (case send_message c1 response of
                                     (Inl ex, c2) \<Rightarrow> on_exception e srv3 c2 (Some message) ex
                                   | (Inr _, c2) \<Rightarrow> Continue srv3 c2 (Some message))
                             else Continue srv3 c1 (Some message)))))))"

text \<open>
  The loop over the frames that the client sends. After the last frame the next
  \<^verbatim>\<open>receive_message\<close> has nothing to deliver: the round raises or breaks, since no error
  reply can be sent on a socket that is not connected.
\<close>

fun message_rounds ::
  "env \<Rightarrow> adapter \<Rightarrow> server \<Rightarrow> connection \<Rightarrow> pyval option \<Rightarrow> string list
    \<Rightarrow> (py_error + unit) \<times> server \<times> connection" where
  "message_rounds e a srv c prev [] =
     (case loop_round e a srv c prev None of
        Continue srv1 c1 prev1 \<Rightarrow> (Inr (), srv1, c1)
      | Break srv1 c1 \<Rightarrow> (Inr (), srv1, c1)
      | Raise ex srv1 c1 \<Rightarrow> (Inl ex, srv1, c1))"
| "message_rounds e a srv c prev (raw # rest) =
     (case loop_round e a srv c prev (Some raw) of
        Continue srv1 c1 prev1 \<Rightarrow> message_rounds e a srv1 c1 prev1 rest
      | Break srv1 c1 \<Rightarrow> (Inr (), srv1, c1)
      | Raise ex srv1 c1 \<Rightarrow> (Inl ex, srv1, c1))"

text \<open>
  \<^verbatim>\<open>
  async def _message_loop(self, connection):
      adapter = self._registry.get_adapter(connection.negotiated_version)
      if not adapter:
          raise RuntimeError("No adapter available for connection")
      while True: ...
  \<close>
\<close>

definition message_loop ::
  "env \<Rightarrow> server \<Rightarrow> connection \<Rightarrow> string list \<Rightarrow> (py_error + unit) \<times> server \<times> connection" where
  "message_loop e srv c frames =
     (case (case negotiated_version c of None \<Rightarrow> None | Some v \<Rightarrow> get_adapter (srv_registry srv) v) of
        None \<Rightarrow> (Inl (RuntimeError ''No adapter available for connection''), srv, c)
      | Some a \<Rightarrow> message_rounds e a srv c None frames)"

subsection \<open>The handshake\<close>

text \<open>
  \<^verbatim>\<open>
  async def _perform_handshake(self, connection):
      message = await connection.receive_message()
      if message.get("type") != "hello":
          raise ValueError("Expected 'hello' message from client")
      client_capabilities = message.get("capabilities", {})
      connection.client_info = message.get("client_info", {})
      try:
          negotiated_version = await self._negotiator.negotiate_protocol(client_capabilities)
          connection.negotiated_version = negotiated_version
      except ValueError as e:
          await self._monitor.track_negotiation_failure(
              self._negotiator._extract_client_versions(client_capabilities), str(e))
          await connection.send_message({
              "type": "error",
              "error": {"code": "PROTOCOL_NEGOTIATION_FAILED", "message": str(e),
                        "supported_versions": self._registry.get_supported_versions()}})
          raise
      adapter = self._registry.get_adapter(negotiated_version)
      if not adapter:
          raise RuntimeError(f"No adapter found for version {negotiated_version}")
      await connection.send_message({"type": "hello", "protocol_version": negotiated_version, ...})
      confirm_message = await connection.receive_message()
      if confirm_message.get("type") != "ready":
          logger.warning(...)
  \<close>
  The result carries the frames that are left.
\<close>

definition expected_hello :: py_error where
  "expected_hello =
     ValueError (''Expected '' @ [CHR 0x27] @ ''hello'' @ [CHR 0x27] @ '' message from client'')"

definition negotiation_failed_reply :: "server \<Rightarrow> py_error \<Rightarrow> pyval" where
  "negotiation_failed_reply srv ex =
     PDict [(''type'', PStr ''error''),
            (''error'', PDict [(''code'', PStr ''PROTOCOL_NEGOTIATION_FAILED''),
                               (''message'', PStr (str_of ex)),
                               (''supported_versions'',
                                PList (map PStr (get_supported_versions (srv_registry srv))))])]"

definition server_hello :: "adapter \<Rightarrow> string \<Rightarrow> pyval" where
  "server_hello a v =
     PDict [(''type'', PStr ''hello''), (''protocol_version'', PStr v),
            (''server_info'', PDict [(''name'', PStr ''MCP RAG Server''),
                                     (''version'', PStr ''1.0.0''),
                                     (''description'', PStr ''RAG server with MCP protocol support'')]),
            (''capabilities'',
             PDict [(''tools'', PList (map PStr (supported_tools a))),
                    (''features'', PList [PStr ''async_tools'', PStr ''error_handling'',
                                          PStr ''progress_tracking'']),
                    (''max_message_size'', PInt (10 * 1024 * 1024))])]"

fun is_value_error :: "py_error \<Rightarrow> bool" where
  "is_value_error (ValueError m) = True"
| "is_value_error ex = False"

definition first_frame :: "string list \<Rightarrow> string option" where
  "first_frame frames = (case frames of [] \<Rightarrow> None | raw # _ \<Rightarrow> Some raw)"

definition await_ready ::
  "env \<Rightarrow> server \<Rightarrow> connection \<Rightarrow> string list
    \<Rightarrow> (py_error + unit) \<times> server \<times> connection \<times> string list" where
  "await_ready e srv c frames =
     (case receive_message (json_loads e) c (first_frame frames) of
        (Inl ex, c1) \<Rightarrow> (Inl ex, srv, c1, tl frames)
      | (Inr confirm_message, c1) \<Rightarrow>
          (case dict_get confirm_message ''type'' PNone of
             Inl ex \<Rightarrow> (Inl ex, srv, c1, tl frames)
           | Inr _ \<Rightarrow> (Inr (), srv, c1, tl frames)))"

definition negotiate_and_greet ::
  "env \<Rightarrow> server \<Rightarrow> connection \<Rightarrow> pyval \<Rightarrow> string list
    \<Rightarrow> (py_error + unit) \<times> server \<times> connection \<times> string list" where
  "negotiate_and_greet e srv c client_capabilities frames =
     (case negotiate e client_capabilities of
        Inl ex \<Rightarrow>
          (if is_value_error ex
           then (let srv1 = track (NegotiationFailureTracked
                                     (client_versions_of e client_capabilities) (str_of ex)) srv
                 in (case send_message c (negotiation_failed_reply srv ex) of
                       (Inl ex2, c1) \<Rightarrow> (Inl ex2, srv1, c1, frames)
                     | (Inr _, c1) \<Rightarrow> (Inl ex, srv1, c1, frames)))
           else (Inl ex, srv, c, frames))
      | Inr v \<Rightarrow>
          (let c1 = c\<lparr>negotiated_version := Some v\<rparr>
           in (case get_adapter (srv_registry srv) v of
                 None \<Rightarrow> (Inl (RuntimeError (''No adapter found for version '' @ v)), srv, c1, frames)
               | Some a \<Rightarrow>
                   (case send_message c1 (server_hello a v) of
                      (Inl ex, c2) \<Rightarrow> (Inl ex, srv, c2, frames)
                    | (Inr _, c2) \<Rightarrow> await_ready e srv c2 frames))))"

definition perform_handshake ::
  "env \<Rightarrow> server \<Rightarrow> connection \<Rightarrow> string list
    \<Rightarrow> (py_error + unit) \<times> server \<times> connection \<times> string list" where
  "perform_handshake e srv c frames =
     (case receive_message (json_loads e) c (first_frame frames) of
        (Inl ex, c1) \<Rightarrow> (Inl ex, srv, c1, tl frames)
      | (Inr message, c1) \<Rightarrow>
          (case dict_get message ''type'' PNone of
             Inl ex \<Rightarrow> (Inl ex, srv, c1, tl frames)
           | Inr message_type \<Rightarrow>
               (if message_type \<noteq> PStr ''hello'' then (Inl expected_hello, srv, c1, tl frames)
                else (case dict_get message ''capabilities'' (PDict []) of
                        Inl ex \<Rightarrow> (Inl ex, srv, c1, tl frames)
                      | Inr client_capabilities \<Rightarrow>
                          (case dict_get message ''client_info'' (PDict []) of
                             Inl ex \<Rightarrow> (Inl ex, srv, c1, tl frames)
                           | Inr info \<Rightarrow>
                               negotiate_and_greet e srv (c1\<lparr>client_info := info\<rparr>)
                                 client_capabilities (tl frames))))))"

subsection \<open>A connection from accept to cleanup\<close>

text \<open>
  \<^verbatim>\<open>
  async def handle_connection(self, websocket):
      connection_id = str(uuid4())
      if len(self._connections) >= self._max_connections:
          await websocket.close(code=1013, reason="Server overloaded")
          return
      await websocket.accept()
      connection = MCPConnection(connection_id, websocket)
      try:
          async with self._connections_lock:
              self._connections[connection_id] = connection
              self._total_connections += 1
          await self._perform_handshake(connection)
          await self._monitor.track_connection_started(...)
          await self._message_loop(connection)
      except WebSocketDisconnect:
          logger.info(...)
      except Exception as e:
          try:
              await connection.send_message({
                  "type": "error",
                  "error": {"code": "SERVER_ERROR", "message": "Internal server error",
                            "timestamp": datetime.utcnow().isoformat()}})
          except:
              pass
      finally:
          await self._monitor.track_connection_ended(connection_id)
          async with self._connections_lock:
              self._connections.pop(connection_id, None)
          try:
              if websocket.client_state == WebSocketState.CONNECTED:
                  await websocket.close()
          except:
              pass
  \<close>
  \<open>cid\<close> is the fresh \<^verbatim>\<open>uuid4\<close>; \<open>frames\<close> is what the client sends on this socket.
  The connection is followed on its own: what other connections do in the meantime is
  not part of the run.
\<close>

definition server_error_reply :: "env \<Rightarrow> pyval" where
  "server_error_reply e =
     PDict [(''type'', PStr ''error''),
            (''error'', PDict [(''code'', PStr ''SERVER_ERROR''),
                               (''message'', PStr ''Internal server error''),
                               (''timestamp'', PStr (stamp e))])]"

definition connection_body ::
  "env \<Rightarrow> server \<Rightarrow> connection \<Rightarrow> string list \<Rightarrow> (py_error + unit) \<times> server \<times> connection" where
  "connection_body e srv c frames =
     (case perform_handshake e srv c frames of
        (Inl ex, srv1, c1, rest) \<Rightarrow> (Inl ex, srv1, c1)
      | (Inr _, srv1, c1, rest) \<Rightarrow>
          message_loop e
            (track (ConnectionStarted (connection_id c1) (negotiated_version c1) (client_info c1)) srv1)
            c1 rest)"

definition connection_cleanup :: "server \<Rightarrow> connection \<Rightarrow> server \<times> connection" where
  "connection_cleanup srv c =
     ((track (ConnectionEnded (connection_id c)) srv)
        \<lparr>srv_connections := removeAll (connection_id c) (srv_connections srv)\<rparr>,
      (if client_state (conn_websocket c) = CONNECTED
       then c\<lparr>conn_websocket := ws_close 1000 (conn_websocket c)\<rparr>
       else c))"

definition handle_connection ::
  "env \<Rightarrow> server \<Rightarrow> string \<Rightarrow> websocket \<Rightarrow> string list \<Rightarrow> server \<times> websocket" where
  "handle_connection e srv cid ws frames =
     (if int (length (srv_connections srv)) \<ge> srv_max_connections srv
      then (srv, ws_close 1013 ws)
      else (let c = new_connection cid (ws_accept ws);
                srv0 = srv\<lparr>srv_connections :=
                             (if cid \<in> set (srv_connections srv) then srv_connections srv
                              else srv_connections srv @ [cid]),
                           srv_total_connections := srv_total_connections srv + 1\<rparr>
            in (case connection_body e srv0 c frames of
                  (Inr _, srv1, c1) \<Rightarrow>
                    (case connection_cleanup srv1 c1 of (srv2, c2) \<Rightarrow> (srv2, conn_websocket c2))
                | (Inl ex, srv1, c1) \<Rightarrow>
                    (if ex = WebSocketDisconnect
                     then (case connection_cleanup srv1 c1 of (srv2, c2) \<Rightarrow> (srv2, conn_websocket c2))
                     else (case send_message c1 (server_error_reply e) of
                             (_, c2) \<Rightarrow>
                               (case connection_cleanup srv1 c2 of
                                  (srv3, c3) \<Rightarrow> (srv3, conn_websocket c3)))))))"

text \<open>
  For concrete runs: a decoder on a few frames, written as names in place of JSON text,
  and an adapter whose tool returns a \<^verbatim>\<open>datetime\<close> in its result.
\<close>

definition sample_loads :: "string \<Rightarrow> string + pyval" where
  "sample_loads raw =
     (if raw = ''call'' then
        Inr (PDict [(''type'', PStr ''tool_call''), (''id'', PInt 7), (''tool'', PStr ''rag_search''),
                    (''parameters'', PDict [(''query'', PStr ''x'')])])
      else if raw = ''ping'' then Inr (PDict [(''type'', PStr ''ping''), (''id'', PInt 8)])
      else if raw = ''hello'' then
        Inr (PDict [(''type'', PStr ''hello''),
                    (''capabilities'', PDict [(''protocolVersion'', PStr ''1.0'')])])
      else if raw = ''ready'' then Inr (PDict [(''type'', PStr ''ready'')])
      else Inl ''Expecting value'')"

definition sample_env :: env where
  "sample_env =
     \<lparr>json_loads = sample_loads, negotiate = (\<lambda>caps. Inr ''1.0''),
      client_versions_of = (\<lambda>caps. PList [PStr ''1.0'']),
      stamp = ''2024-01-01T00:00:00'', elapsed = 1 / 4\<rparr>"

definition dated_result :: "string \<Rightarrow> pyval \<Rightarrow> tool_outcome" where
  "dated_result t p = Inr (PDict [(''document_id'', PStr ''d1''), (''uploaded_at'', PObj ''datetime'')])"

definition adapter_dated :: adapter where
  "adapter_dated = \<lparr>supported_version = ''1.0'', supported_tools = [''rag_search''],
     handle_tool_call = dated_result\<rparr>"

definition sample_server :: "adapter \<Rightarrow> server" where
  "sample_server a =
     new_server (register_adapter empty_registry a)
       (new_negotiator (register_adapter empty_registry a)) 100"

definition ready_connection :: connection where
  "ready_connection =
     (new_connection ''c1'' (ws_accept new_websocket))\<lparr>negotiated_version := Some ''1.0''\<rparr>"

text \<open>The \<^verbatim>\<open>error.code\<close> of a message, \<^verbatim>\<open>None\<close> when it has none.\<close>

definition error_code_of :: "pyval \<Rightarrow> pyval" where
  "error_code_of m =
     (case dict_get m ''error'' PNone of
        Inr er \<Rightarrow> (case dict_get er ''code'' PNone of Inr code \<Rightarrow> code | Inl _ \<Rightarrow> PNone)
      | Inl _ \<Rightarrow> PNone)"

chapter \<open>Properties\<close>

section \<open>Dictionaries\<close>

lemma map_of_dict_set: "map_of (dict_set k v d) = (map_of d)(k \<mapsto> v)"
  by (induction d) (auto simp: fun_eq_iff)

lemma in_dict_keys: "k \<in> set (dict_keys d) \<longleftrightarrow> map_of d k \<noteq> None"
  by (simp add: dict_keys_def map_of_eq_None_iff)

lemma dict_keys_dict_set:
  "dict_keys (dict_set k v d) = (if k \<in> set (dict_keys d) then dict_keys d else dict_keys d @ [k])"
  by (induction d) (auto simp: dict_keys_def)

section \<open>The registry\<close>

lemma matrix_get_matrix_set:
  "matrix_get (matrix_set v1 v2 c m) w1 w2 = (if w1 = v1 \<and> w2 = v2 then c else matrix_get m w1 w2)"
  by (auto simp: matrix_get_def matrix_set_def map_of_dict_set Let_def split: option.splits)

lemma are_compatible_register: "are_compatible (register_adapter r a) v1 v2 = are_compatible r v1 v2"
  by (simp add: are_compatible_def register_adapter_def)

lemma are_compatible_set:
  "are_compatible (set_compatibility r v1 v2 c) w1 w2 =
     (if w1 = v1 \<and> w2 = v2 then c else are_compatible r w1 w2)"
  by (simp add: are_compatible_def set_compatibility_def matrix_get_matrix_set)

text \<open>
  C5, as the code has it. \<^verbatim>\<open>register_adapter\<close> never fails. Registering an adapter
  under a version that is already registered replaces the adapter stored under that
  version: afterwards the version maps to the new adapter, every other version maps to
  what it mapped to before, and the order of the registered versions is unchanged.
\<close>

theorem register_adapter_replaces:
  "get_adapter (register_adapter r a) (supported_version a) = Some a \<and>
   (\<forall>v. v \<noteq> supported_version a \<longrightarrow> get_adapter (register_adapter r a) v = get_adapter r v) \<and>
   (get_adapter r (supported_version a) \<noteq> None \<longrightarrow>
      get_supported_versions (register_adapter r a) = get_supported_versions r)"
  by (simp add: get_adapter_def register_adapter_def get_supported_versions_def map_of_dict_set
      dict_keys_dict_set in_dict_keys)

theorem register_adapter_replaces_witness:
  "get_adapter (register_adapter empty_registry adapter_v10) ''1.0'' \<noteq> None \<and>
   get_adapter (register_adapter (register_adapter empty_registry adapter_v10) adapter_v10_other) ''1.0''
     = Some adapter_v10_other \<and>
   get_adapter (register_adapter (register_adapter empty_registry adapter_v10) adapter_v10_other) ''1.1''
     = None \<and>
   get_supported_versions (register_adapter (register_adapter empty_registry adapter_v10) adapter_v10_other)
     = [''1.0'']"
  using register_adapter_replaces [of "register_adapter empty_registry adapter_v10" adapter_v10_other]
  by (simp add: get_adapter_def register_adapter_def get_supported_versions_def empty_registry_def
      adapter_v10_def adapter_v10_other_def dict_keys_def)

text \<open>
  C5, as the claim states it, fails: with an adapter registered under 1.0, registering
  a different adapter of version 1.0 returns normally and the registry maps 1.0 to the
  second adapter.
\<close>

theorem duplicate_version_counterexample:
  "get_adapter (register_adapter empty_registry adapter_v10) ''1.0'' = Some adapter_v10 \<and>
   supported_version adapter_v10_other = ''1.0'' \<and>
   get_adapter (register_adapter (register_adapter empty_registry adapter_v10) adapter_v10_other) ''1.0''
     = Some adapter_v10_other \<and>
   adapter_v10_other \<noteq> adapter_v10"
  by (simp add: get_adapter_def register_adapter_def empty_registry_def
      adapter_v10_def adapter_v10_other_def)

text \<open>
  C6, as the code has it. After any run of \<^verbatim>\<open>register_adapter\<close> and
  \<^verbatim>\<open>set_compatibility\<close> calls, \<^verbatim>\<open>are_compatible(v1, v2)\<close> is what the last
  \<^verbatim>\<open>set_compatibility(v1, v2, _)\<close> of the run recorded, and what it was before the
  run when there is none (false in a fresh registry). Registering an adapter never
  changes the relation.
\<close>

theorem compatibility_is_last_edge:
  "are_compatible (run_registry r ops) v1 v2 =
     (case last_edge v1 v2 ops of Some c \<Rightarrow> c | None \<Rightarrow> are_compatible r v1 v2)"
  unfolding run_registry_def
proof (induction ops arbitrary: r)
  case Nil
  show ?case by simp
next
  case (Cons x ops)
  show ?case
  proof (cases x)
    case (Register a)
    then show ?thesis using Cons.IH [of "register_adapter r a"]
      by (simp add: are_compatible_register split: option.splits)
  next
    case (SetCompatibility w1 w2 c)
    then show ?thesis using Cons.IH [of "set_compatibility r w1 w2 c"]
      by (simp add: are_compatible_set split: option.splits)
  qed
qed

theorem compatibility_is_last_edge_witness:
  "are_compatible scenario_registry ''1.1'' ''1.0'' \<and>
   \<not> are_compatible scenario_registry ''1.0'' ''1.1''"
  unfolding scenario_registry_def compatibility_is_last_edge
  by (simp add: are_compatible_def empty_registry_def matrix_get_def)

text \<open>
  C6, as the claim states it, fails: after registering the 1.0 adapter in a fresh
  registry, 1.0 is registered and \<^verbatim>\<open>are_compatible("1.0", "1.0")\<close> is false.
\<close>

theorem reflexivity_counterexample:
  "get_adapter (run_registry empty_registry [Register adapter_v10]) ''1.0'' \<noteq> None \<and>
   \<not> are_compatible (run_registry empty_registry [Register adapter_v10]) ''1.0'' ''1.0''"
  by (simp add: run_registry_def empty_registry_def register_adapter_def get_adapter_def
      are_compatible_def matrix_get_def adapter_v10_def)

lemma first_registered_filter:
  "first_registered r cs =
     (case filter (\<lambda>c. get_adapter r c \<noteq> None) cs of [] \<Rightarrow> None | c # _ \<Rightarrow> Some c)"
  by (induction cs) (auto simp: get_adapter_def)

lemma first_server_for_filter:
  "first_server_for r c ss =
     (case filter (\<lambda>s. are_compatible r s c) ss of [] \<Rightarrow> None | s # _ \<Rightarrow> Some s)"
  by (induction ss) auto

lemma first_compatible_concat:
  "first_compatible r cs =
     (case concat (map (\<lambda>c. filter (\<lambda>s. are_compatible r s c) (get_supported_versions r)) cs) of
        [] \<Rightarrow> None | s # _ \<Rightarrow> Some s)"
proof (induction cs)
  case Nil
  show ?case by simp
next
  case (Cons c cs)
  show ?case
  proof (cases "filter (\<lambda>s. are_compatible r s c) (get_supported_versions r)")
    case Nil
    then show ?thesis
      using Cons.IH by (simp add: first_server_for_filter get_supported_versions_def)
  next
    case (Cons s ss)
    then show ?thesis
      by (simp add: first_server_for_filter get_supported_versions_def)
  qed
qed

text \<open>
  C3, as the code has it. \<^verbatim>\<open>find_best_version\<close> returns the first client version,
  in the order of the client's list, that is registered. When none is registered it
  goes through the client versions in the order of the client's list and, for each,
  through the registered versions in the order of their registration, and returns the
  first registered version that \<^verbatim>\<open>are_compatible\<close> accepts for that client version.
  Otherwise it returns \<^verbatim>\<open>None\<close>. No version order is consulted.
\<close>

theorem find_best_version_first_match:
  "find_best_version r cs =
     (case filter (\<lambda>c. get_adapter r c \<noteq> None) cs of
        c # _ \<Rightarrow> Some c
      | [] \<Rightarrow>
         (case concat (map (\<lambda>c. filter (\<lambda>s. are_compatible r s c) (get_supported_versions r)) cs) of
            s # _ \<Rightarrow> Some s
          | [] \<Rightarrow> None))"
  by (simp add: find_best_version_def first_registered_filter first_compatible_concat split: list.splits)

theorem find_best_version_first_match_witness:
  "find_best_version scenario_registry [''0.9''] = Some ''1.0'' \<and>
   find_best_version scenario_registry [''1.1'', ''1.0''] = Some ''1.1'' \<and>
   find_best_version scenario_registry [''2.0''] = None"
  unfolding find_best_version_first_match
  by code_simp

text \<open>
  C3, as the claim states it, fails: with 1.0 and 1.1 registered and the client list
  \<^verbatim>\<open>["1.0", "1.1"]\<close>, both client versions are registered and 1.1 is the greater by
  the version key, yet \<^verbatim>\<open>find_best_version\<close> returns 1.0.
\<close>

theorem find_best_version_counterexample:
  "find_best_version scenario_registry [''1.0'', ''1.1''] = Some ''1.0'' \<and>
   ''1.1'' \<in> set [''1.0'', ''1.1''] \<inter> set (get_supported_versions scenario_registry) \<and>
   tuple_lt (version_sort_key ''1.0'') (version_sort_key ''1.1'') = Inr True"
  by code_simp

section \<open>Version keys and sorting\<close>

lemma string_rank_less:
  "map (\<lambda>c. int (of_char c)) s < map (\<lambda>c. int (of_char c)) t \<longleftrightarrow> s < t"
proof (induction s arbitrary: t)
  case Nil
  show ?case by (cases t) simp_all
next
  case (Cons c s)
  show ?case
  proof (cases t)
    case Nil
    then show ?thesis by simp
  next
    case (Cons d t')
    have "(of_char c :: nat) = of_char d \<longleftrightarrow> c = d" by simp
    then show ?thesis using Cons Cons.IH [of t']
      by (simp add: less_char_def)
  qed
qed

lemma char_rank_inj: "inj (\<lambda>c::char. int (of_char c))"
  by (rule injI) simp

lemma part_rank_inj: "part_rank x = part_rank y \<longleftrightarrow> x = y"
  by (cases x; cases y) (simp_all add: inj_map_eq_map [OF char_rank_inj])

lemma part_lt_rank: "part_lt x y = Inr b \<Longrightarrow> b = (part_rank x < part_rank y)"
  by (cases x; cases y) (auto simp: string_rank_less)

lemma tuple_lt_rank:
  "tuple_lt a b = Inr t \<Longrightarrow> t = (map part_rank a < map part_rank b)"
proof (induction a b rule: tuple_lt.induct)
  case (4 x xs y ys)
  show ?case
  proof (cases "x = y")
    case True
    then show ?thesis using 4 by simp
  next
    case False
    then have "part_rank x \<noteq> part_rank y" by (simp add: part_rank_inj)
    then show ?thesis using 4 False part_lt_rank [of x y t] by auto
  qed
qed simp_all

lemma part_lt_sym: "isl (part_lt x y) = isl (part_lt y x)"
  by (cases x; cases y) simp_all

lemma tuple_lt_sym: "isl (tuple_lt a b) = isl (tuple_lt b a)"
  by (induction a b rule: tuple_lt.induct) (auto simp: part_lt_sym)

lemma tuple_lt_refl: "tuple_lt a a = Inr False"
  by (induction a) simp_all

lemma first_error_None:
  "first_error k js = None \<Longrightarrow> j \<in> set js \<Longrightarrow> \<not> isl (tuple_lt k j)"
  by (induction js) (auto split: sum.splits)

lemma comparison_error_None:
  "comparison_error ks = None \<Longrightarrow> a \<in> set ks \<Longrightarrow> b \<in> set ks \<Longrightarrow> \<not> isl (tuple_lt a b)"
proof (induction ks)
  case Nil
  then show ?case by simp
next
  case (Cons k ks)
  from Cons.prems(1) have fe: "first_error k ks = None" and ce: "comparison_error ks = None"
    by (auto split: option.splits)
  show ?case
  proof (cases "a = b")
    case True
    then show ?thesis by (simp add: tuple_lt_refl)
  next
    case False
    consider "a = k" "b \<in> set ks" | "b = k" "a \<in> set ks" | "a \<in> set ks" "b \<in> set ks"
      using Cons.prems(2,3) False by auto
    then show ?thesis
    proof cases
      case 1
      then show ?thesis using first_error_None [OF fe] by simp
    next
      case 2
      then show ?thesis using first_error_None [OF fe, of a] tuple_lt_sym [of a b] by simp
    next
      case 3
      then show ?thesis using Cons.IH [OF ce] by simp
    qed
  qed
qed

lemma comparison_error_Some:
  "comparison_error ks = Some e \<Longrightarrow> \<exists>a\<in>set ks. \<exists>b\<in>set ks. tuple_lt a b = Inl e"
proof (induction ks)
  case Nil
  then show ?case by simp
next
  case (Cons k ks)
  have fe: "first_error k js = Some e \<Longrightarrow> \<exists>j\<in>set js. tuple_lt k j = Inl e" for js
    by (induction js) (auto split: sum.splits)
  show ?case
  proof (cases "first_error k ks")
    case None
    then show ?thesis using Cons by auto
  next
    case (Some e')
    then show ?thesis using Cons.prems fe [of ks] by auto
  qed
qed

lemma key_less_rank:
  "\<not> isl (tuple_lt (version_sort_key a) (version_sort_key b)) \<Longrightarrow> key_less a b = (rank a < rank b)"
  using tuple_lt_rank [of "version_sort_key a" "version_sort_key b"]
  by (cases "tuple_lt (version_sort_key a) (version_sort_key b)") (auto simp: key_less_def rank_def)

lemma set_insert_descending: "set (insert_descending x ys) = insert x (set ys)"
  by (induction ys) auto

lemma set_sort_descending: "set (foldr insert_descending vs []) = set vs"
  by (induction vs) (auto simp: set_insert_descending)

lemma hd_insert_descending:
  "hd (insert_descending x ys) = (if ys \<noteq> [] \<and> key_less x (hd ys) then hd ys else x)"
  by (cases ys) auto

lemma sort_descending_nonempty: "vs \<noteq> [] \<Longrightarrow> foldr insert_descending vs [] \<noteq> []"
  using set_sort_descending [of vs] by (cases vs) auto

lemma hd_sort_descending:
  assumes "\<And>a b. a \<in> set vs \<Longrightarrow> b \<in> set vs \<Longrightarrow> key_less a b = (f a < (f b :: 'b :: linorder))"
    and "vs \<noteq> []"
  shows "hd (foldr insert_descending vs []) \<in> set vs \<and>
         (\<forall>v\<in>set vs. f v \<le> f (hd (foldr insert_descending vs [])))"
  using assms
proof (induction vs)
  case Nil
  then show ?case by simp
next
  case (Cons x vs)
  show ?case
  proof (cases "vs = []")
    case True
    then show ?thesis by simp
  next
    case False
    let ?s = "foldr insert_descending vs []"
    have ne: "?s \<noteq> []" using False by (rule sort_descending_nonempty)
    have ih: "hd ?s \<in> set vs \<and> (\<forall>v\<in>set vs. f v \<le> f (hd ?s))"
      using Cons.IH Cons.prems(1) False by simp
    have kl: "key_less x (hd ?s) = (f x < f (hd ?s))"
      using Cons.prems(1) [of x "hd ?s"] ih by simp
    show ?thesis
    proof (cases "key_less x (hd ?s)")
      case True
      then show ?thesis using ih kl ne by (auto simp: hd_insert_descending)
    next
      case False
      then have "f (hd ?s) \<le> f x" using kl by simp
      then show ?thesis using ih False ne by (auto simp: hd_insert_descending)
    qed
  qed
qed

lemma select_latest_version_maximum:
  assumes "vs \<noteq> []"
    and "\<forall>a\<in>set vs. \<forall>b\<in>set vs. \<not> isl (tuple_lt (version_sort_key a) (version_sort_key b))"
  shows "\<exists>r. select_latest_version vs = Inr r \<and> r \<in> set vs \<and>
           (\<forall>v\<in>set vs. tuple_lt (version_sort_key r) (version_sort_key v) = Inr False)"
proof -
  have ce: "comparison_error (map version_sort_key vs) = None"
  proof (cases "comparison_error (map version_sort_key vs)")
    case None
    then show ?thesis .
  next
    case (Some e)
    then obtain a b where "a \<in> set vs" "b \<in> set vs"
      "tuple_lt (version_sort_key a) (version_sort_key b) = Inl e"
      using comparison_error_Some [OF Some] by auto
    then have False using assms(2) by (metis sum.disc(1))
    then show ?thesis ..
  qed
  let ?s = "foldr insert_descending vs []"
  have kl: "key_less a b = (rank a < rank b)" if "a \<in> set vs" "b \<in> set vs" for a b
    using key_less_rank assms(2) that by blast
  have hd: "hd ?s \<in> set vs \<and> (\<forall>v\<in>set vs. rank v \<le> rank (hd ?s))"
    using hd_sort_descending [of vs rank] kl assms(1) by blast
  have ne: "?s \<noteq> []" using assms(1) by (rule sort_descending_nonempty)
  have sel: "select_latest_version vs = Inr (hd ?s)"
    using ce ne by (cases ?s) (simp_all add: select_latest_version_def sorted_by_key_def first_item_def)
  have "tuple_lt (version_sort_key (hd ?s)) (version_sort_key v) = Inr False" if "v \<in> set vs" for v
  proof -
    have "\<not> isl (tuple_lt (version_sort_key (hd ?s)) (version_sort_key v))"
      using assms(2) hd that by blast
    then obtain t where t: "tuple_lt (version_sort_key (hd ?s)) (version_sort_key v) = Inr t"
      by (cases "tuple_lt (version_sort_key (hd ?s)) (version_sort_key v)") auto
    have "\<not> rank (hd ?s) < rank v" using hd that by (simp add: not_less)
    then show ?thesis using tuple_lt_rank [OF t] t by (simp add: rank_def)
  qed
  then show ?thesis using sel hd by blast
qed

section \<open>Negotiation\<close>

lemma set_set_and: "set (set_and xs ys) = set xs \<inter> set ys"
  by (auto simp: set_and_def)

text \<open>
  When the client's versions and the registered versions intersect, and the keys of the
  versions in the intersection can be compared with each other (as the keys of
  dotted-numeric versions can), negotiation returns a version of the intersection whose
  key no other version of the intersection exceeds, whatever the iteration order of
  the set is.
\<close>

lemma negotiate_exact_match_maximum:
  assumes "set (extract_client_versions caps) \<inter> set (get_supported_versions (neg_registry ng)) \<noteq> {}"
    and "\<And>xs. set (hashed xs) = set xs"
    and "\<forall>a\<in>set (extract_client_versions caps) \<inter> set (get_supported_versions (neg_registry ng)).
         \<forall>b\<in>set (extract_client_versions caps) \<inter> set (get_supported_versions (neg_registry ng)).
           \<not> isl (tuple_lt (version_sort_key a) (version_sort_key b))"
  shows "\<exists>r. negotiate_protocol hashed ng caps = Inr r \<and>
           r \<in> set (extract_client_versions caps) \<inter> set (get_supported_versions (neg_registry ng)) \<and>
           (\<forall>v\<in>set (extract_client_versions caps) \<inter> set (get_supported_versions (neg_registry ng)).
              tuple_lt (version_sort_key r) (version_sort_key v) = Inr False)"
proof -
  let ?em = "set_and (extract_client_versions caps) (get_supported_versions (neg_registry ng))"
  have s: "set (hashed ?em) = set (extract_client_versions caps) \<inter> set (get_supported_versions (neg_registry ng))"
    by (simp add: assms(2) set_set_and)
  have "set ?em \<noteq> {}" using assms(1) by (simp add: set_set_and)
  then have ne: "?em \<noteq> []" by auto
  have hne: "hashed ?em \<noteq> []" using s assms(1) by auto
  have np: "negotiate_protocol hashed ng caps = select_latest_version (hashed ?em)"
    using ne by (simp add: negotiate_protocol_def Let_def)
  show ?thesis
    using select_latest_version_maximum [OF hne] assms(3) unfolding np s by blast
qed

lemma negotiate_newest_first:
  "negotiate_protocol id (new_negotiator scenario_registry) (supports [''1.0'', ''1.1'']) = Inr ''1.1'' \<and>
   negotiate_protocol rev (new_negotiator scenario_registry) (supports [''1.0'', ''1.1'']) = Inr ''1.1''"
  by code_simp

text \<open>
  C4 at versions whose keys cannot be compared. With adapters 0.5 and beta registered
  and a client that supports both, the exact matches are 0.5 and beta, with the keys
  \<open>(0, 5)\<close> and \<open>(0, "beta")\<close>; sorting them compares 5 with \<^verbatim>\<open>"beta"\<close>, and
  \<^verbatim>\<open>negotiate_protocol\<close> ends with that \<^verbatim>\<open>TypeError\<close>, in either iteration order of
  the two-element set.
\<close>

theorem negotiate_mixed_keys_raises:
  "negotiate_protocol id (new_negotiator beta_registry) (supports [''0.5'', ''beta''])
     = Inl (TypeError ''not supported between instances of int and str'') \<and>
   negotiate_protocol rev (new_negotiator beta_registry) (supports [''0.5'', ''beta''])
     = Inl (TypeError ''not supported between instances of str and int'')"
  by code_simp

text \<open>
  C1 on the code. With adapters 1.0 and 1.1 and a client that supports only 2.0, there
  is no exact match and no compatible version, but the fallback step accepts the oldest
  registered version 1.0, since the client's key \<open>(2, 0)\<close> is at least \<open>(1, 0)\<close>:
  \<^verbatim>\<open>negotiate_protocol\<close> returns 1.0 and raises nothing. This holds with the
  negotiator's built-in matrix and with the four edges of the scenario.
\<close>

theorem negotiate_unknown_version_falls_back:
  "negotiate_protocol hashed (new_negotiator scenario_registry) (supports [''2.0'']) = Inr ''1.0'' \<and>
   negotiate_protocol hashed
     \<lparr>neg_registry = scenario_registry, neg_matrix = compatibility_matrix scenario_registry\<rparr>
     (supports [''2.0'']) = Inr ''1.0''"
  by code_simp

section \<open>The monitor: health\<close>

lemma error_rate_issues_critical:
  "list_all (\<lambda>i. severity i = ''critical'' \<and> issue_type i = ''high_error_rate'') (error_rate_issues ops m tms)"
  by (induction tms) auto

lemma error_rate_issues_empty:
  "(error_rate_issues ops m tms \<noteq> []) = list_ex (\<lambda>(name, tm). high_error_rate ops m tm) tms"
  by (induction ops m tms rule: error_rate_issues.induct) simp_all

lemma response_time_issues_warning:
  "list_all (\<lambda>i. severity i = ''warning'' \<and> issue_type i = ''slow_response'') (response_time_issues ops m tms)"
  by (induction tms) auto

lemma response_time_issues_empty:
  "(response_time_issues ops m tms \<noteq> []) = list_ex (\<lambda>(name, tm). slow_response ops m tm) tms"
  by (induction ops m tms rule: response_time_issues.induct) simp_all

lemma list_ex_const: "list_all (\<lambda>i. P i \<and> R i) xs \<Longrightarrow> list_ex P xs = (xs \<noteq> [])"
  by (cases xs) auto

lemma list_ex_never: "list_all Q xs \<Longrightarrow> (\<And>i. Q i \<Longrightarrow> \<not> P i) \<Longrightarrow> \<not> list_ex P xs"
  by (induction xs) auto

lemma critical_issue:
  "list_ex (\<lambda>i. severity i = ''critical'') (health_issue_list ops cutoff_time m) =
     list_ex (\<lambda>(name, tm). high_error_rate ops m tm) (mon_tool_metrics m)"
proof -
  have a: "\<not> list_ex (\<lambda>i. severity i = ''critical'') (connection_issues ops m)"
    by (simp add: connection_issues_def)
  have b: "list_ex (\<lambda>i. severity i = ''critical'') (error_rate_issues ops m (mon_tool_metrics m))
             = (error_rate_issues ops m (mon_tool_metrics m) \<noteq> [])"
    by (rule list_ex_const [OF error_rate_issues_critical])
  have c: "\<not> list_ex (\<lambda>i. severity i = ''critical'') (response_time_issues ops m (mon_tool_metrics m))"
    by (rule list_ex_never [OF response_time_issues_warning]) simp
  have d: "\<not> list_ex (\<lambda>i. severity i = ''critical'') (stale_issues ops cutoff_time m)"
    by (simp add: stale_issues_def)
  show ?thesis
    using a b c d by (simp add: health_issue_list_def error_rate_issues_empty list_ex_append)
qed

lemma warning_issue:
  "list_ex (\<lambda>i. severity i = ''warning'') (health_issue_list ops cutoff_time m) =
     (f_exceeded ops (total_active m) (thr_max_connections m) \<or>
      list_ex (\<lambda>(name, tm). slow_response ops m tm) (mon_tool_metrics m))"
proof -
  have a: "list_ex (\<lambda>i. severity i = ''warning'') (connection_issues ops m)
             = f_exceeded ops (total_active m) (thr_max_connections m)"
    by (simp add: connection_issues_def)
  have b: "\<not> list_ex (\<lambda>i. severity i = ''warning'') (error_rate_issues ops m (mon_tool_metrics m))"
    by (rule list_ex_never [OF error_rate_issues_critical]) simp
  have c: "list_ex (\<lambda>i. severity i = ''warning'') (response_time_issues ops m (mon_tool_metrics m))
             = (response_time_issues ops m (mon_tool_metrics m) \<noteq> [])"
    by (rule list_ex_const [OF response_time_issues_warning])
  have d: "\<not> list_ex (\<lambda>i. severity i = ''warning'') (stale_issues ops cutoff_time m)"
    by (simp add: stale_issues_def)
  show ?thesis
    using a b c d by (simp add: health_issue_list_def response_time_issues_empty list_ex_append)
qed

lemma stale_issue:
  "list_ex (\<lambda>i. issue_type i = ''stale_connections'') (health_issue_list ops cutoff_time m) =
     list_ex (\<lambda>(conn_id, cm). f_before ops (cm_last_activity cm) cutoff_time) (mon_connections m)"
proof -
  have a: "\<not> list_ex (\<lambda>i. issue_type i = ''stale_connections'') (connection_issues ops m)"
    by (simp add: connection_issues_def)
  have b: "\<not> list_ex (\<lambda>i. issue_type i = ''stale_connections'') (error_rate_issues ops m (mon_tool_metrics m))"
    by (rule list_ex_never [OF error_rate_issues_critical]) simp
  have c: "\<not> list_ex (\<lambda>i. issue_type i = ''stale_connections'') (response_time_issues ops m (mon_tool_metrics m))"
    by (rule list_ex_never [OF response_time_issues_warning]) simp
  have d: "list_ex (\<lambda>i. issue_type i = ''stale_connections'') (stale_issues ops cutoff_time m)
             = (stale_connections ops cutoff_time m \<noteq> [])"
    by (simp add: stale_issues_def)
  have e: "(stale_connections ops cutoff_time m \<noteq> []) =
             list_ex (\<lambda>(conn_id, cm). f_before ops (cm_last_activity cm) cutoff_time) (mon_connections m)"
    by (simp add: stale_connections_def filter_empty_conv list_ex_iff)
  show ?thesis
    using a b c d e by (simp add: health_issue_list_def list_ex_append)
qed

lemma stale_issue_info:
  "list_all (\<lambda>i. issue_type i = ''stale_connections'' \<longrightarrow>
       severity i = ''info'' \<and>
       issue_connections i =
         map fst (filter (\<lambda>(conn_id, cm). f_before ops (cm_last_activity cm) cutoff_time)
                    (mon_connections m)))
     (health_issue_list ops cutoff_time m)"
proof -
  let ?P = "\<lambda>i. issue_type i = ''stale_connections'' \<longrightarrow>
       severity i = ''info'' \<and>
       issue_connections i =
         map fst (filter (\<lambda>(conn_id, cm). f_before ops (cm_last_activity cm) cutoff_time)
                    (mon_connections m))"
  have b: "list_all ?P (error_rate_issues ops m (mon_tool_metrics m))"
    by (rule list.pred_mono_strong [OF error_rate_issues_critical]) simp
  have c: "list_all ?P (response_time_issues ops m (mon_tool_metrics m))"
    by (rule list.pred_mono_strong [OF response_time_issues_warning]) simp
  show ?thesis
    using b c
    by (simp add: health_issue_list_def connection_issues_def stale_issues_def stale_connections_def)
qed

lemma status_of_issues:
  "overall_status (health_issue_list ops cutoff_time m) =
     (if list_ex (\<lambda>(name, tm). total_calls tm > 0 \<and>
            f_lt ops (thr_max_error_rate m) (f_ratio ops (failed_calls tm) (total_calls tm)))
           (mon_tool_metrics m)
      then ''unhealthy''
      else if f_exceeded ops
                (sum_list (map (\<lambda>(v, pm). active_connections pm) (mon_protocol_metrics m)))
                (thr_max_connections m) \<or>
              list_ex (\<lambda>(name, tm). f_lt ops (thr_max_response_time m) (avg_execution_time tm))
                (mon_tool_metrics m)
      then ''degraded'' else ''healthy'')"
  unfolding overall_status_def critical_issue warning_issue high_error_rate_def slow_response_def
    total_active_def
  by (rule refl)

lemma status_without_connections:
  "overall_status (health_issue_list ops cutoff_later (m\<lparr>mon_connections := cs, thr_connection_timeout := x\<rparr>))
     = overall_status (health_issue_list ops cutoff_time m)"
proof -
  let ?m' = "m\<lparr>mon_connections := cs, thr_connection_timeout := x\<rparr>"
  have h: "high_error_rate ops ?m' = high_error_rate ops m" "slow_response ops ?m' = slow_response ops m"
    "total_active ?m' = total_active m"
    by (simp_all add: fun_eq_iff high_error_rate_def slow_response_def total_active_def)
  show ?thesis
    by (simp add: overall_status_def critical_issue warning_issue h)
qed

text \<open>
  C8, as the code has it. \<^verbatim>\<open>get_health_status\<close> computes the stale cutoff
  \<^verbatim>\<open>now - timedelta(seconds=connection_timeout)\<close> before it determines the status. When
  that raises, the exception leaves \<^verbatim>\<open>get_health_status\<close> and there is no status.
  When it gives a point in time, the status is \<^verbatim>\<open>"unhealthy"\<close> exactly when some tool
  with \<^verbatim>\<open>total_calls > 0\<close> has \<^verbatim>\<open>failed_calls / total_calls\<close> above \<^verbatim>\<open>max_error_rate\<close>;
  otherwise \<^verbatim>\<open>"degraded"\<close> exactly when the sum of \<^verbatim>\<open>active_connections\<close> over the
  protocol metrics is above \<^verbatim>\<open>max_connections\<close> or some tool's \<^verbatim>\<open>avg_execution_time\<close>
  is above \<^verbatim>\<open>max_response_time\<close>; otherwise \<^verbatim>\<open>"healthy"\<close>. That sum is the
  \<^verbatim>\<open>active_connections\<close> entry of the result. The issue list holds a
  \<^verbatim>\<open>stale_connections\<close> issue exactly when some connection's last activity is before the
  cutoff; such an issue has the severity \<^verbatim>\<open>"info"\<close> and lists those connections. And
  the status is the same whatever the connections, the timeout and the time of the call
  are, as long as the cutoff can be computed: stale connections never change it.
\<close>

theorem health_classification:
  "(\<forall>ex. f_cutoff ops now (thr_connection_timeout m) = Inl ex \<longrightarrow>
      get_health_status ops now m = Inl ex) \<and>
   (\<forall>cutoff_time. f_cutoff ops now (thr_connection_timeout m) = Inr cutoff_time \<longrightarrow>
      (\<exists>h. get_health_status ops now m = Inr h \<and>
         health_status h =
           (if list_ex (\<lambda>(name, tm). total_calls tm > 0 \<and>
                  f_lt ops (thr_max_error_rate m) (f_ratio ops (failed_calls tm) (total_calls tm)))
                 (mon_tool_metrics m)
            then ''unhealthy''
            else if f_exceeded ops
                      (sum_list (map (\<lambda>(v, pm). active_connections pm) (mon_protocol_metrics m)))
                      (thr_max_connections m) \<or>
                    list_ex (\<lambda>(name, tm). f_lt ops (thr_max_response_time m) (avg_execution_time tm))
                      (mon_tool_metrics m)
            then ''degraded''
            else ''healthy'') \<and>
         health_active_connections h =
           sum_list (map (\<lambda>(v, pm). active_connections pm) (mon_protocol_metrics m)) \<and>
         list_ex (\<lambda>i. issue_type i = ''stale_connections'') (health_issues h) =
           list_ex (\<lambda>(conn_id, cm). f_before ops (cm_last_activity cm) cutoff_time)
             (mon_connections m) \<and>
         list_all (\<lambda>i. issue_type i = ''stale_connections'' \<longrightarrow>
              severity i = ''info'' \<and>
              issue_connections i =
                map fst (filter (\<lambda>(conn_id, cm). f_before ops (cm_last_activity cm) cutoff_time)
                           (mon_connections m)))
           (health_issues h) \<and>
         (\<forall>later cs x cutoff_later. f_cutoff ops later x = Inr cutoff_later \<longrightarrow>
            (\<exists>h'. get_health_status ops later
                     (m\<lparr>mon_connections := cs, thr_connection_timeout := x\<rparr>) = Inr h' \<and>
                  health_status h' = health_status h))))"
proof (intro conjI allI impI)
  fix ex
  assume "f_cutoff ops now (thr_connection_timeout m) = Inl ex"
  then show "get_health_status ops now m = Inl ex"
    by (simp add: get_health_status_def)
next
  fix cutoff_time
  assume c: "f_cutoff ops now (thr_connection_timeout m) = Inr cutoff_time"
  let ?h = "\<lparr>health_status = overall_status (health_issue_list ops cutoff_time m),
             health_active_connections = total_active m,
             health_total_issues = length (health_issue_list ops cutoff_time m),
             health_issues = health_issue_list ops cutoff_time m\<rparr>"
  have g: "get_health_status ops now m = Inr ?h"
    using c by (simp add: get_health_status_def)
  have later: "\<exists>h'. get_health_status ops later (m\<lparr>mon_connections := cs, thr_connection_timeout := x\<rparr>) = Inr h' \<and>
                  health_status h' = health_status ?h"
    if "f_cutoff ops later x = Inr cutoff_later" for later cs x cutoff_later
    using that status_without_connections
      [where ops = ops and cutoff_later = cutoff_later and m = m and cs = cs and x = x
         and cutoff_time = cutoff_time]
    by (simp add: get_health_status_def)
  show "\<exists>h. get_health_status ops now m = Inr h \<and>
         health_status h =
           (if list_ex (\<lambda>(name, tm). total_calls tm > 0 \<and>
                  f_lt ops (thr_max_error_rate m) (f_ratio ops (failed_calls tm) (total_calls tm)))
                 (mon_tool_metrics m)
            then ''unhealthy''
            else if f_exceeded ops
                      (sum_list (map (\<lambda>(v, pm). active_connections pm) (mon_protocol_metrics m)))
                      (thr_max_connections m) \<or>
                    list_ex (\<lambda>(name, tm). f_lt ops (thr_max_response_time m) (avg_execution_time tm))
                      (mon_tool_metrics m)
            then ''degraded''
            else ''healthy'') \<and>
         health_active_connections h =
           sum_list (map (\<lambda>(v, pm). active_connections pm) (mon_protocol_metrics m)) \<and>
         list_ex (\<lambda>i. issue_type i = ''stale_connections'') (health_issues h) =
           list_ex (\<lambda>(conn_id, cm). f_before ops (cm_last_activity cm) cutoff_time)
             (mon_connections m) \<and>
         list_all (\<lambda>i. issue_type i = ''stale_connections'' \<longrightarrow>
              severity i = ''info'' \<and>
              issue_connections i =
                map fst (filter (\<lambda>(conn_id, cm). f_before ops (cm_last_activity cm) cutoff_time)
                           (mon_connections m)))
           (health_issues h) \<and>
         (\<forall>later cs x cutoff_later. f_cutoff ops later x = Inr cutoff_later \<longrightarrow>
            (\<exists>h'. get_health_status ops later
                     (m\<lparr>mon_connections := cs, thr_connection_timeout := x\<rparr>) = Inr h' \<and>
                  health_status h' = health_status h))"
  proof (intro exI [of _ ?h] conjI)
    show "get_health_status ops now m = Inr ?h" by (rule g)
    show "health_status ?h =
           (if list_ex (\<lambda>(name, tm). total_calls tm > 0 \<and>
                  f_lt ops (thr_max_error_rate m) (f_ratio ops (failed_calls tm) (total_calls tm)))
                 (mon_tool_metrics m)
            then ''unhealthy''
            else if f_exceeded ops
                      (sum_list (map (\<lambda>(v, pm). active_connections pm) (mon_protocol_metrics m)))
                      (thr_max_connections m) \<or>
                    list_ex (\<lambda>(name, tm). f_lt ops (thr_max_response_time m) (avg_execution_time tm))
                      (mon_tool_metrics m)
            then ''degraded''
            else ''healthy'')"
      using status_of_issues [of ops cutoff_time m] by simp
    show "health_active_connections ?h =
           sum_list (map (\<lambda>(v, pm). active_connections pm) (mon_protocol_metrics m))"
      by (simp add: total_active_def)
    show "list_ex (\<lambda>i. issue_type i = ''stale_connections'') (health_issues ?h) =
           list_ex (\<lambda>(conn_id, cm). f_before ops (cm_last_activity cm) cutoff_time)
             (mon_connections m)"
      using stale_issue [of ops cutoff_time m] by simp
    show "list_all (\<lambda>i. issue_type i = ''stale_connections'' \<longrightarrow>
              severity i = ''info'' \<and>
              issue_connections i =
                map fst (filter (\<lambda>(conn_id, cm). f_before ops (cm_last_activity cm) cutoff_time)
                           (mon_connections m)))
           (health_issues ?h)"
      using stale_issue_info [of ops cutoff_time m] by simp
    show "\<forall>later cs x cutoff_later. f_cutoff ops later x = Inr cutoff_later \<longrightarrow>
            (\<exists>h'. get_health_status ops later
                     (m\<lparr>mon_connections := cs, thr_connection_timeout := x\<rparr>) = Inr h' \<and>
                  health_status h' = health_status ?h)"
      using later by blast
  qed
qed








lemma list_ex_and_all:
  "list_ex P xs \<Longrightarrow> list_all (\<lambda>i. P i \<longrightarrow> Q i) xs \<Longrightarrow> list_ex (\<lambda>i. P i \<and> Q i) xs"
  by (induction xs) auto

lemma busy_monitor_fields:
  "mon_tool_metrics busy_monitor =
     [(''rag_search'',
       \<lparr>total_calls = 2, successful_calls = 1, failed_calls = 1,
        avg_execution_time = Num (3 / 4), min_execution_time = Num (1 / 2),
        max_execution_time = Num 1, recent_response_times = [Num (1 / 2), Num 1],
        error_types = [(''ValueError'', 1)]\<rparr>)]"
  "mon_protocol_metrics busy_monitor = []"
  "map (\<lambda>(conn_id, cm). (conn_id, cm_last_activity cm)) (mon_connections busy_monitor)
     = [(''c1'', a_time - 1000)]"
  "thr_max_connections busy_monitor = Num 100"
  "thr_max_error_rate busy_monitor = Num (1 / 10)"
  "thr_max_response_time busy_monitor = Num 30"
  "thr_connection_timeout busy_monitor = Num 300"
  by (simp_all add: busy_monitor_def idle_connection_def track_tool_calls_def track_tool_call_def
      update_tool_metrics_def new_monitor_def new_tool_metrics_def exact_ops_def
      window_append_def py_min_def py_max_def xrat_mean_def bump_def Let_def)

lemma slow_monitor_fields:
  "mon_tool_metrics slow_monitor =
     [(''rag_summarize'',
       \<lparr>total_calls = 1, successful_calls = 1, failed_calls = 0,
        avg_execution_time = Num 45, min_execution_time = Num 45,
        max_execution_time = Num 45, recent_response_times = [Num 45],
        error_types = []\<rparr>)]"
  "mon_protocol_metrics slow_monitor = []"
  "mon_connections slow_monitor = []"
  "thr_max_connections slow_monitor = Num 100"
  "thr_max_error_rate slow_monitor = Num (1 / 10)"
  "thr_max_response_time slow_monitor = Num 30"
  "thr_connection_timeout slow_monitor = Num 300"
  by (simp_all add: slow_monitor_def track_tool_calls_def track_tool_call_def
      update_tool_metrics_def new_monitor_def new_tool_metrics_def exact_ops_def
      window_append_def py_min_def py_max_def xrat_mean_def bump_def Let_def)

lemma cutoff_five_minutes: "f_cutoff exact_ops a_time (Num 300) = Inr (a_time - 300)"
  by (simp add: exact_ops_def a_time_def)

theorem health_classification_witness:
  "(\<exists>h. get_health_status exact_ops a_time busy_monitor = Inr h \<and>
        health_status h = ''unhealthy'' \<and>
        list_ex (\<lambda>i. issue_type i = ''stale_connections'' \<and> severity i = ''info'' \<and>
                     issue_connections i = [''c1'']) (health_issues h)) \<and>
   (\<exists>h. get_health_status exact_ops a_time crowded_monitor = Inr h \<and>
        health_status h = ''degraded'' \<and> health_active_connections h = 150) \<and>
   (\<exists>h. get_health_status exact_ops a_time slow_monitor = Inr h \<and>
        health_status h = ''degraded'') \<and>
   (\<exists>h. get_health_status exact_ops a_time
          ((new_monitor exact_ops)\<lparr>mon_connections := [(''c1'', idle_connection)]\<rparr>) = Inr h \<and>
        health_status h = ''healthy'' \<and>
        list_ex (\<lambda>i. issue_type i = ''stale_connections'') (health_issues h))"
proof (intro conjI)
  have c: "f_cutoff exact_ops a_time (thr_connection_timeout busy_monitor) = Inr (a_time - 300)"
    by (simp add: busy_monitor_fields cutoff_five_minutes)
  have s: "map fst (filter (\<lambda>(conn_id, cm). cm_last_activity cm < a_time - 300)
             (mon_connections busy_monitor)) = [''c1'']"
    by (simp add: busy_monitor_def idle_connection_def track_tool_calls_def track_tool_call_def
        new_monitor_def Let_def)
  have t: "list_ex (\<lambda>(conn_id, cm). cm_last_activity cm < a_time - 300) (mon_connections busy_monitor)"
    by (simp add: busy_monitor_def idle_connection_def track_tool_calls_def track_tool_call_def
        new_monitor_def Let_def)
  from health_classification [where ops = exact_ops and now = a_time and m = busy_monitor,
      THEN conjunct2, rule_format, OF c]
  obtain h where h: "get_health_status exact_ops a_time busy_monitor = Inr h"
    "health_status h = ''unhealthy''"
    "list_ex (\<lambda>i. issue_type i = ''stale_connections'') (health_issues h)"
    "list_all (\<lambda>i. issue_type i = ''stale_connections'' \<longrightarrow>
        severity i = ''info'' \<and> issue_connections i = [''c1'']) (health_issues h)"
    using s t by (auto simp: busy_monitor_fields exact_ops_def)
  show "\<exists>h. get_health_status exact_ops a_time busy_monitor = Inr h \<and>
        health_status h = ''unhealthy'' \<and>
        list_ex (\<lambda>i. issue_type i = ''stale_connections'' \<and> severity i = ''info'' \<and>
                     issue_connections i = [''c1'']) (health_issues h)"
    using h(1,2) list_ex_and_all [OF h(3,4)] by blast
next
  have c: "f_cutoff exact_ops a_time (thr_connection_timeout crowded_monitor) = Inr (a_time - 300)"
    by (simp add: crowded_monitor_def new_monitor_def exact_ops_def a_time_def)
  from health_classification [where ops = exact_ops and now = a_time and m = crowded_monitor,
      THEN conjunct2, rule_format, OF c]
  show "\<exists>h. get_health_status exact_ops a_time crowded_monitor = Inr h \<and>
        health_status h = ''degraded'' \<and> health_active_connections h = 150"
    by (auto simp: crowded_monitor_def new_monitor_def exact_ops_def)
next
  have c: "f_cutoff exact_ops a_time (thr_connection_timeout slow_monitor) = Inr (a_time - 300)"
    by (simp add: slow_monitor_fields cutoff_five_minutes)
  from health_classification [where ops = exact_ops and now = a_time and m = slow_monitor,
      THEN conjunct2, rule_format, OF c]
  show "\<exists>h. get_health_status exact_ops a_time slow_monitor = Inr h \<and>
        health_status h = ''degraded''"
    by (auto simp: slow_monitor_fields exact_ops_def)
next
  let ?m = "(new_monitor exact_ops)\<lparr>mon_connections := [(''c1'', idle_connection)]\<rparr>"
  have c: "f_cutoff exact_ops a_time (thr_connection_timeout ?m) = Inr (a_time - 300)"
    by (simp add: new_monitor_def exact_ops_def a_time_def)
  from health_classification [where ops = exact_ops and now = a_time and m = ?m,
      THEN conjunct2, rule_format, OF c]
  show "\<exists>h. get_health_status exact_ops a_time ?m = Inr h \<and>
        health_status h = ''healthy'' \<and>
        list_ex (\<lambda>i. issue_type i = ''stale_connections'') (health_issues h)"
    by (auto simp: new_monitor_def exact_ops_def idle_connection_def)
qed

text \<open>
  C8, as the claim states it, fails for a monitor state whose \<^verbatim>\<open>connection_timeout\<close>
  is \<^verbatim>\<open>float("inf")\<close>, which \<^verbatim>\<open>set_alert_threshold\<close> stores like any other value:
  \<^verbatim>\<open>get_health_status\<close> raises \<^verbatim>\<open>OverflowError\<close> and classifies nothing.
\<close>

theorem infinite_timeout_counterexample:
  "get_health_status exact_ops a_time
     (set_alert_threshold (new_monitor exact_ops) ''connection_timeout'' Infinity) =
   Inl (OverflowError ''cannot convert float infinity to integer'')"
  by (simp add: get_health_status_def set_alert_threshold_def new_monitor_def exact_ops_def)

section \<open>The monitor: tool metrics\<close>



















subsection \<open>Three calls of a tenth of a second\<close>













section \<open>The connection: receiving\<close>

lemma dict_get_object: "dict_get (PDict d) k dflt = Inr (case map_of d k of Some v \<Rightarrow> v | None \<Rightarrow> dflt)"
  by (simp add: dict_get_def)

lemma dict_get_other:
  "(\<forall>d. message \<noteq> PDict d) \<Longrightarrow>
   dict_get message k dflt = Inl (AttributeError ''object has no attribute get'')"
  by (cases message) (simp_all add: dict_get_def)

lemma receive_message_frame:
  "client_state (conn_websocket c) = CONNECTED \<Longrightarrow>
   receive_message loads c (Some raw) =
     ((case loads raw of
         Inr message \<Rightarrow>
           (case dict_get message ''type'' (PStr ''unknown'') of
              Inl ex \<Rightarrow> Inl ex
            | Inr _ \<Rightarrow> Inr message)
       | Inl detail \<Rightarrow> Inl (ValueError (''Invalid JSON message: '' @ detail))),
      c\<lparr>message_count := message_count c + 1\<rparr>)"
  by (simp add: receive_message_def Let_def split: sum.splits)

lemma receive_all_count:
  "client_state (conn_websocket c) = CONNECTED \<Longrightarrow>
   message_count (receive_all loads c frames) = message_count c + int (length frames)"
proof (induction frames arbitrary: c)
  case Nil
  show ?case by simp
next
  case (Cons raw rest)
  let ?c1 = "c\<lparr>message_count := message_count c + 1\<rparr>"
  have "client_state (conn_websocket ?c1) = CONNECTED" using Cons.prems by simp
  from Cons.IH [OF this] show ?case
    by (simp add: receive_message_frame [OF Cons.prems])
qed

text \<open>
  C10. On a connected socket \<^verbatim>\<open>receive_message\<close> adds exactly one to
  \<^verbatim>\<open>message_count\<close> for the frame it receives, whether or not the frame is valid JSON:
  on a frame that \<^verbatim>\<open>json.loads\<close> rejects it raises \<^verbatim>\<open>ValueError\<close> with the counter
  already incremented and not rolled back; on a frame that decodes to an object it
  returns the object with the same increment; on a frame that decodes to any other
  value it raises \<^verbatim>\<open>AttributeError\<close>, again with the counter incremented; and when no
  frame arrives the counter is unchanged. Over any list of frames, read one after the
  other, the counter grows by the number of frames.
\<close>

theorem receive_message_counts_frames:
  assumes "client_state (conn_websocket c) = CONNECTED"
  shows "message_count (snd (receive_message loads c (Some raw))) = message_count c + 1 \<and>
         (\<forall>detail. loads raw = Inl detail \<longrightarrow>
            receive_message loads c (Some raw) =
              (Inl (ValueError (''Invalid JSON message: '' @ detail)),
               c\<lparr>message_count := message_count c + 1\<rparr>)) \<and>
         (\<forall>d. loads raw = Inr (PDict d) \<longrightarrow>
            receive_message loads c (Some raw) =
              (Inr (PDict d), c\<lparr>message_count := message_count c + 1\<rparr>)) \<and>
         (\<forall>message. loads raw = Inr message \<longrightarrow> (\<forall>d. message \<noteq> PDict d) \<longrightarrow>
            receive_message loads c (Some raw) =
              (Inl (AttributeError ''object has no attribute get''),
               c\<lparr>message_count := message_count c + 1\<rparr>)) \<and>
         message_count (snd (receive_message loads c None)) = message_count c \<and>
         message_count (receive_all loads c frames) = message_count c + int (length frames)"
proof (intro conjI allI impI)
  show "message_count (snd (receive_message loads c (Some raw))) = message_count c + 1"
    by (simp add: receive_message_frame [OF assms])
  show "receive_message loads c (Some raw) =
          (Inl (ValueError (''Invalid JSON message: '' @ detail)),
           c\<lparr>message_count := message_count c + 1\<rparr>)"
    if "loads raw = Inl detail" for detail
    using that by (simp add: receive_message_frame [OF assms])
  show "receive_message loads c (Some raw) =
          (Inr (PDict d), c\<lparr>message_count := message_count c + 1\<rparr>)"
    if "loads raw = Inr (PDict d)" for d
    using that by (simp add: receive_message_frame [OF assms] dict_get_object)
  show "receive_message loads c (Some raw) =
          (Inl (AttributeError ''object has no attribute get''),
           c\<lparr>message_count := message_count c + 1\<rparr>)"
    if "loads raw = Inr message" and "\<forall>d. message \<noteq> PDict d" for message
    using that by (simp add: receive_message_frame [OF assms] dict_get_other)
  show "message_count (snd (receive_message loads c None)) = message_count c"
    using assms by (simp add: receive_message_def)
  show "message_count (receive_all loads c frames) = message_count c + int (length frames)"
    by (rule receive_all_count [OF assms])
qed

theorem receive_message_counts_frames_witness:
  "client_state (conn_websocket ready_connection) = CONNECTED \<and>
   sample_loads ''junk'' = Inl ''Expecting value'' \<and>
   receive_message sample_loads ready_connection (Some ''junk'') =
     (Inl (ValueError ''Invalid JSON message: Expecting value''),
      ready_connection\<lparr>message_count := 1\<rparr>) \<and>
   receive_message sample_loads ready_connection (Some ''ping'') =
     (Inr (PDict [(''type'', PStr ''ping''), (''id'', PInt 8)]),
      ready_connection\<lparr>message_count := 1\<rparr>) \<and>
   receive_message (\<lambda>raw. Inr (PList [])) ready_connection (Some ''[]'') =
     (Inl (AttributeError ''object has no attribute get''),
      ready_connection\<lparr>message_count := 1\<rparr>) \<and>
   message_count (receive_all sample_loads ready_connection [''ping'', ''junk'', ''call'']) = 3"
proof -
  have a: "client_state (conn_websocket ready_connection) = CONNECTED"
    by (simp add: ready_connection_def new_connection_def ws_accept_def)
  have b: "sample_loads ''junk'' = Inl ''Expecting value''"
    "sample_loads ''ping'' = Inr (PDict [(''type'', PStr ''ping''), (''id'', PInt 8)])"
    by (simp_all add: sample_loads_def)
  have c: "message_count ready_connection = 0"
    by (simp add: ready_connection_def new_connection_def)
  show ?thesis
    using receive_message_counts_frames [OF a, of sample_loads "''junk''" "[''ping'', ''junk'', ''call'']"]
      receive_message_counts_frames [OF a, of sample_loads "''ping''" "[]"]
      receive_message_counts_frames [OF a, of "\<lambda>raw. Inr (PList [])" "''[]''" "[]"]
      a b c by simp
qed

section \<open>The connection: a first message that is not hello\<close>

lemma serializable_server_error: "json_serializable (server_error_reply e)"
  by (simp add: server_error_reply_def)

lemma handshake_not_hello:
  assumes "client_state (conn_websocket c) = CONNECTED"
    and "json_loads e raw = Inr message"
    and "dict_get message ''type'' PNone \<noteq> Inr (PStr ''hello'')"
  shows "\<exists>ex. ex \<noteq> WebSocketDisconnect \<and>
           perform_handshake e srv c (raw # rest) = (Inl ex, srv, c\<lparr>message_count := message_count c + 1\<rparr>, rest)"
proof (cases "\<exists>d. message = PDict d")
  case False
  then have "dict_get message ''type'' (PStr ''unknown'') = Inl (AttributeError ''object has no attribute get'')"
    by (simp add: dict_get_other)
  then show ?thesis using assms(1,2)
    by (simp add: perform_handshake_def first_frame_def receive_message_frame)
next
  case True
  then obtain d where d: "message = PDict d" by blast
  obtain t where t: "dict_get message ''type'' PNone = Inr t" "t \<noteq> PStr ''hello''"
    using assms(3) d by (simp add: dict_get_object)
  show ?thesis using t d assms(1,2)
    by (simp add: perform_handshake_def first_frame_def receive_message_frame expected_hello_def
        dict_get_object)
qed

text \<open>
  C2, as the code has it. When the server has room for the connection and the first
  frame decodes to a message whose \<^verbatim>\<open>type\<close> is not \<^verbatim>\<open>"hello"\<close>, the handshake raises
  an exception that \<^verbatim>\<open>handle_connection\<close> answers with one error message of code
  \<^verbatim>\<open>"SERVER_ERROR"\<close>; nothing else is sent, the socket is closed (normal close), the
  connection is removed from the live set, the monitor is told only that the connection
  ended, and no tool is dispatched.
\<close>

theorem first_message_not_hello:
  assumes "int (length (srv_connections srv)) < srv_max_connections srv"
    and "json_loads e raw = Inr message"
    and "dict_get message ''type'' PNone \<noteq> Inr (PStr ''hello'')"
  shows "snd (handle_connection e srv cid ws (raw # rest)) =
           ws\<lparr>client_state := DISCONNECTED, sent := sent ws @ [server_error_reply e],
              close_code := Some 1000\<rparr> \<and>
         error_code_of (server_error_reply e) = PStr ''SERVER_ERROR'' \<and>
         srv_dispatch_log (fst (handle_connection e srv cid ws (raw # rest))) = srv_dispatch_log srv \<and>
         srv_monitor_events (fst (handle_connection e srv cid ws (raw # rest))) =
           srv_monitor_events srv @ [ConnectionEnded cid] \<and>
         cid \<notin> set (srv_connections (fst (handle_connection e srv cid ws (raw # rest))))"
proof -
  let ?c = "new_connection cid (ws_accept ws)"
  let ?srv0 = "srv\<lparr>srv_connections :=
                     (if cid \<in> set (srv_connections srv) then srv_connections srv
                      else srv_connections srv @ [cid]),
                   srv_total_connections := srv_total_connections srv + 1\<rparr>"
  have conn: "client_state (conn_websocket ?c) = CONNECTED"
    by (simp add: new_connection_def ws_accept_def)
  obtain ex where ex: "ex \<noteq> WebSocketDisconnect"
    and hs: "perform_handshake e ?srv0 ?c (raw # rest) =
               (Inl ex, ?srv0, ?c\<lparr>message_count := message_count ?c + 1\<rparr>, rest)"
    using handshake_not_hello [OF conn assms(2,3)] by blast
  have body: "connection_body e ?srv0 ?c (raw # rest) =
                (Inl ex, ?srv0, ?c\<lparr>message_count := message_count ?c + 1\<rparr>)"
    by (simp add: connection_body_def hs)
  have hc: "handle_connection e srv cid ws (raw # rest) =
     (case send_message (?c\<lparr>message_count := message_count ?c + 1\<rparr>) (server_error_reply e) of
        (_, c2) \<Rightarrow> (case connection_cleanup ?srv0 c2 of (srv3, c3) \<Rightarrow> (srv3, conn_websocket c3)))"
    using assms(1) ex by (simp add: handle_connection_def Let_def body)
  show ?thesis
    unfolding hc
    by (simp add: send_message_def serializable_server_error connection_cleanup_def track_def
        new_connection_def ws_accept_def ws_close_def error_code_of_def dict_get_def
        server_error_reply_def)
qed

theorem first_message_not_hello_witness:
  "int (length (srv_connections (sample_server adapter_v10))) < srv_max_connections (sample_server adapter_v10) \<and>
   dict_get (PDict [(''type'', PStr ''tool_call''), (''id'', PInt 7), (''tool'', PStr ''rag_search''),
                    (''parameters'', PDict [(''query'', PStr ''x'')])]) ''type'' PNone
     \<noteq> Inr (PStr ''hello'') \<and>
   snd (handle_connection sample_env (sample_server adapter_v10) ''c1'' new_websocket [''call'']) =
     \<lparr>client_state = DISCONNECTED, sent = [server_error_reply sample_env], close_code = Some 1000\<rparr> \<and>
   srv_dispatch_log (fst (handle_connection sample_env (sample_server adapter_v10) ''c1'' new_websocket [''call'']))
     = []"
proof -
  let ?m = "PDict [(''type'', PStr ''tool_call''), (''id'', PInt 7), (''tool'', PStr ''rag_search''),
                   (''parameters'', PDict [(''query'', PStr ''x'')])]"
  have a: "int (length (srv_connections (sample_server adapter_v10)))
             < srv_max_connections (sample_server adapter_v10)"
    by (simp add: sample_server_def new_server_def)
  have b: "json_loads sample_env ''call'' = Inr ?m"
    by (simp add: sample_env_def sample_loads_def)
  have c: "dict_get ?m ''type'' PNone \<noteq> Inr (PStr ''hello'')"
    by (simp add: dict_get_def)
  have d: "srv_dispatch_log (sample_server adapter_v10) = []"
    by (simp add: sample_server_def new_server_def)
  show ?thesis
    using first_message_not_hello [OF a b c, of "''c1''" new_websocket "[]"] a c d
    by (simp add: new_websocket_def)
qed

text \<open>
  C2, as the claim states it, fails: when the first message is a \<^verbatim>\<open>tool_call\<close>, the one
  error message that the server sends has the code \<^verbatim>\<open>"SERVER_ERROR"\<close>, not
  \<^verbatim>\<open>"PROTOCOL_VIOLATION"\<close>.
\<close>

theorem protocol_violation_counterexample:
  "json_loads sample_env ''call'' =
     Inr (PDict [(''type'', PStr ''tool_call''), (''id'', PInt 7), (''tool'', PStr ''rag_search''),
                 (''parameters'', PDict [(''query'', PStr ''x'')])]) \<and>
   map error_code_of
     (sent (snd (handle_connection sample_env (sample_server adapter_v10) ''c1'' new_websocket [''call''])))
     = [PStr ''SERVER_ERROR''] \<and>
   PStr ''SERVER_ERROR'' \<noteq> PStr ''PROTOCOL_VIOLATION''"
  by code_simp

section \<open>The connection: the id of a reply\<close>

text \<open>
  Every reply that \<^verbatim>\<open>_handle_message\<close> returns carries the \<^verbatim>\<open>id\<close> of the message, or
  \<^verbatim>\<open>None\<close> when the message has none.
\<close>

lemma dispatch_tool_id:
  "dispatch_tool e srv a message_id tool parameters = (reply, srv1) \<Longrightarrow>
   dict_get reply ''id'' PNone = Inr message_id"
  by (auto simp: dispatch_tool_def Let_def dict_get_def split: sum.splits)

lemma error_reply_id: "dict_get (error_reply message_id code text ts) ''id'' PNone = Inr message_id"
  by (simp add: error_reply_def dict_get_def)

lemma handle_message_echoes_id:
  assumes "handle_message e srv c a (PDict d) = (Inr reply, srv1)"
  shows "dict_get reply ''id'' PNone = Inr (case map_of d ''id'' of Some v \<Rightarrow> v | None \<Rightarrow> PNone)"
proof -
  let ?t = "case map_of d ''type'' of Some v \<Rightarrow> v | None \<Rightarrow> PNone"
  let ?i = "case map_of d ''id'' of Some v \<Rightarrow> v | None \<Rightarrow> PNone"
  consider (call) "?t = PStr ''tool_call''" | (ping) "?t = PStr ''ping''"
    | (caps) "?t = PStr ''get_capabilities''" | (info) "?t = PStr ''get_protocol_info''"
    | (other) "?t \<noteq> PStr ''tool_call''" "?t \<noteq> PStr ''ping''" "?t \<noteq> PStr ''get_capabilities''"
        "?t \<noteq> PStr ''get_protocol_info''"
    by blast
  then show ?thesis
  proof cases
    case call
    show ?thesis
    proof (cases "handle_tool_call_message e srv a d")
      case (Pair r s)
      show ?thesis
      proof (cases r)
        case (Inl ex)
        then show ?thesis using assms call Pair
          by (auto simp: handle_message_def Let_def error_reply_id)
      next
        case (Inr rep)
        then have "\<exists>tool ps s0. dispatch_tool e s0 a ?i tool ps = (rep, s)"
          using Pair
          by (auto simp: handle_tool_call_message_def Let_def split: if_splits pyval.splits prod.splits)
        then have "dict_get rep ''id'' PNone = Inr ?i" using dispatch_tool_id by blast
        then show ?thesis using assms call Pair Inr
          by (auto simp: handle_message_def Let_def)
      qed
    qed
  next
    case ping
    then show ?thesis using assms by (auto simp: handle_message_def Let_def dict_get_def)
  next
    case caps
    then show ?thesis using assms
      by (auto simp: handle_message_def Let_def dict_get_def handle_get_capabilities_def)
  next
    case info
    show ?thesis
    proof (cases "handle_get_protocol_info srv c d")
      case (Inl ex)
      then show ?thesis using assms info
        by (auto simp: handle_message_def Let_def error_reply_id)
    next
      case (Inr rep)
      then have "dict_get rep ''id'' PNone = Inr ?i"
        by (auto simp: handle_get_protocol_info_def dict_get_def
            split: option.splits if_splits sum.splits)
      then show ?thesis using assms info Inr
        by (auto simp: handle_message_def Let_def)
    qed
  next
    case other
    then show ?thesis using assms
      by (auto simp: handle_message_def Let_def error_reply_id)
  qed
qed

text \<open>
  C9 on the code. On a ready connection a \<^verbatim>\<open>tool_call\<close> with \<^verbatim>\<open>id\<close> 7 reaches an
  adapter whose result holds a \<^verbatim>\<open>datetime\<close>. The \<^verbatim>\<open>tool_response\<close> cannot be encoded,
  \<^verbatim>\<open>send_message\<close> raises, and the handler of the message loop sends the only reply to
  this message: an error that carries 7 under \<^verbatim>\<open>"request_id"\<close> and has no \<^verbatim>\<open>"id"\<close>.
\<close>

theorem processing_error_reply_drops_id:
  "json_loads sample_env ''call'' =
     Inr (PDict [(''type'', PStr ''tool_call''), (''id'', PInt 7), (''tool'', PStr ''rag_search''),
                 (''parameters'', PDict [(''query'', PStr ''x'')])]) \<and>
   sent (conn_websocket (snd (snd
     (message_rounds sample_env adapter_dated (sample_server adapter_dated) ready_connection None [''call'']))))
     = [PDict [(''type'', PStr ''error''), (''request_id'', PInt 7),
               (''error'', PDict [(''code'', PStr ''MESSAGE_PROCESSING_ERROR''),
                                  (''message'', PStr ''Object is not JSON serializable''),
                                  (''timestamp'', PStr ''2024-01-01T00:00:00'')])]] \<and>
   map (\<lambda>m. dict_get m ''id'' PNone)
     (sent (conn_websocket (snd (snd
       (message_rounds sample_env adapter_dated (sample_server adapter_dated) ready_connection None [''call''])))))
     = [Inr PNone]"
  by code_simp

end
